theory Spec2Isabelle
  imports Main "HOL-Library.AList" "HOL-Library.Sublist"
begin

section \<open>Python values, objects and the store\<close>

text \<open>
  The pipeline template of \<^verbatim>\<open>stepfunctions/template/pipeline/inference.py\<close> works on
  nested dictionaries and lists that are shared between \<^verbatim>\<open>self.input_template\<close> and the
  \<^verbatim>\<open>inputs\<close> of each execution. Dictionaries and lists are therefore objects in a store;
  a value is either immediate (\<^verbatim>\<open>None\<close>, a string, a number) or a reference to an object.
  A dictionary is an association list in insertion order, with string keys; the store
  is a list of objects and an address is an index into it, so a new object always gets
  an address that no existing reference can hold.
\<close>

type_synonym addr = nat

datatype val = VNone | VStr string | VInt int | VRef addr

type_synonym dict = "(string \<times> val) list"

datatype obj = ODict dict | OList "val list"

type_synonym heap = "obj list"

text \<open>
  The exceptions that the modelled statements raise. \<open>Unmodelled\<close> is not a Python
  exception: it marks a run that leaves what the model covers (a reference to no
  object, which Python cannot produce, and \<^verbatim>\<open>str()\<close> of a number, a list or a
  dictionary, whose text the model does not compute). \<open>Raised\<close> is any other exception,
  by the name of its class, that a call into the sagemaker or stepfunctions packages
  raises.
\<close>

datatype error = KeyError | TypeError | IndexError | AttributeError | Unmodelled | Raised string

text \<open>
  A statement takes a store to a result and a store: the value it returns or the
  exception it raises, and the store as it leaves it. What a statement has written
  before it raises stays written.
\<close>

type_synonym 'a py = "heap \<Rightarrow> (error + 'a) \<times> heap"

definition ret :: "'a \<Rightarrow> 'a py" where
  "ret x = (\<lambda>h. (Inr x, h))"

definition raise :: "error \<Rightarrow> 'a py" where
  "raise e = (\<lambda>h. (Inl e, h))"

definition bind :: "'a py \<Rightarrow> ('a \<Rightarrow> 'b py) \<Rightarrow> 'b py" where
  "bind m f = (\<lambda>h. case m h of (Inl e, h') \<Rightarrow> (Inl e, h') | (Inr x, h') \<Rightarrow> f x h')"

definition lookup :: "heap \<Rightarrow> addr \<Rightarrow> obj option" where
  "lookup h a = (if a < length h then Some (h ! a) else None)"

definition store :: "heap \<Rightarrow> addr \<Rightarrow> obj \<Rightarrow> heap" where
  "store h a ob = h[a := ob]"

definition alloc :: "obj \<Rightarrow> val py" where
  "alloc ob = (\<lambda>h. (Inr (VRef (length h)), h @ [ob]))"

subsection \<open>Subscription, item assignment, membership, copy, iteration\<close>

datatype subscript = Key string | Index int

text \<open>Python list and string indexing: a negative index counts from the end.\<close>

definition py_index :: "'a list \<Rightarrow> int \<Rightarrow> 'a option" where
  "py_index xs i =
     (if 0 \<le> i \<and> i < int (length xs) then Some (xs ! nat i)
      else if i < 0 \<and> - int (length xs) \<le> i then Some (xs ! nat (int (length xs) + i))
      else None)"

text \<open>\<^verbatim>\<open>v[s]\<close>\<close>

definition getitem :: "val \<Rightarrow> subscript \<Rightarrow> val py" where
  "getitem v s = (\<lambda>h.
     case v of
       VRef a \<Rightarrow>
         (case lookup h a of
            None \<Rightarrow> (Inl Unmodelled, h)
          | Some (ODict d) \<Rightarrow>
              (case s of
                 Key k \<Rightarrow> (case map_of d k of None \<Rightarrow> (Inl KeyError, h) | Some x \<Rightarrow> (Inr x, h))
               | Index i \<Rightarrow> (Inl KeyError, h))
          | Some (OList xs) \<Rightarrow>
              (case s of
                 Key k \<Rightarrow> (Inl TypeError, h)
               | Index i \<Rightarrow> (case py_index xs i of None \<Rightarrow> (Inl IndexError, h) | Some x \<Rightarrow> (Inr x, h))))
     | VStr str \<Rightarrow>
         (case s of
            Key k \<Rightarrow> (Inl TypeError, h)
          | Index i \<Rightarrow> (case py_index str i of None \<Rightarrow> (Inl IndexError, h) | Some c \<Rightarrow> (Inr (VStr [c]), h)))
     | VNone \<Rightarrow> (Inl TypeError, h)
     | VInt n \<Rightarrow> (Inl TypeError, h))"

text \<open>\<^verbatim>\<open>v[k] = x\<close> for a string key \<open>k\<close>, the only kind of key the source assigns to.\<close>

definition setitem :: "val \<Rightarrow> string \<Rightarrow> val \<Rightarrow> unit py" where
  "setitem v k x = (\<lambda>h.
     case v of
       VRef a \<Rightarrow>
         (case lookup h a of
            None \<Rightarrow> (Inl Unmodelled, h)
          | Some (ODict d) \<Rightarrow> (Inr (), store h a (ODict (AList.update k x d)))
          | Some (OList xs) \<Rightarrow> (Inl TypeError, h))
     | VStr str \<Rightarrow> (Inl TypeError, h)
     | VNone \<Rightarrow> (Inl TypeError, h)
     | VInt n \<Rightarrow> (Inl TypeError, h))"

text \<open>
  \<^verbatim>\<open>k in v\<close> for a string \<open>k\<close>: a key of a dictionary, an element of a list, a
  substring of a string.
\<close>

definition contains :: "val \<Rightarrow> string \<Rightarrow> bool py" where
  "contains v k = (\<lambda>h.
     case v of
       VRef a \<Rightarrow>
         (case lookup h a of
            None \<Rightarrow> (Inl Unmodelled, h)
          | Some (ODict d) \<Rightarrow> (Inr (k \<in> set (map fst d)), h)
          | Some (OList xs) \<Rightarrow> (Inr (VStr k \<in> set xs), h))
     | VStr str \<Rightarrow> (Inr (sublist k str), h)
     | VNone \<Rightarrow> (Inl TypeError, h)
     | VInt n \<Rightarrow> (Inl TypeError, h))"

text \<open>\<^verbatim>\<open>v.copy()\<close>: a new object with the same entries; the entries are not copied.\<close>

definition copy :: "val \<Rightarrow> val py" where
  "copy v = (\<lambda>h.
     case v of
       VRef a \<Rightarrow> (case lookup h a of None \<Rightarrow> (Inl Unmodelled, h) | Some ob \<Rightarrow> alloc ob h)
     | VStr str \<Rightarrow> (Inl AttributeError, h)
     | VNone \<Rightarrow> (Inl AttributeError, h)
     | VInt n \<Rightarrow> (Inl AttributeError, h))"

text \<open>
  The values a \<^verbatim>\<open>for\<close> loop over \<open>v\<close> visits. The loop of the source assigns an
  item under a string key to each visited value, which raises on a list and on a
  string, so the object iterated over is never changed by a body that returns, and the
  values can be read once, when the loop starts.
\<close>

definition iter_values :: "val \<Rightarrow> val list py" where
  "iter_values v = (\<lambda>h.
     case v of
       VRef a \<Rightarrow>
         (case lookup h a of
            None \<Rightarrow> (Inl Unmodelled, h)
          | Some (ODict d) \<Rightarrow> (Inr (map (\<lambda>p. VStr (fst p)) d), h)
          | Some (OList xs) \<Rightarrow> (Inr xs, h))
     | VStr str \<Rightarrow> (Inr (map (\<lambda>c. VStr [c]) str), h)
     | VNone \<Rightarrow> (Inl TypeError, h)
     | VInt n \<Rightarrow> (Inl TypeError, h))"

fun for_each :: "val list \<Rightarrow> (val \<Rightarrow> unit py) \<Rightarrow> unit py" where
  "for_each [] body = ret ()"
| "for_each (x # xs) body = bind (body x) (\<lambda>_. for_each xs body)"

text \<open>A sequence of statements.\<close>

fun block :: "unit py list \<Rightarrow> unit py" where
  "block [] = ret ()"
| "block (statement # statements) = bind statement (\<lambda>_. block statements)"

text \<open>\<^verbatim>\<open>'{}'.format(v)\<close>: the text of a value.\<close>

definition format_arg :: "val \<Rightarrow> string py" where
  "format_arg v =
     (case v of
        VStr s \<Rightarrow> ret s
      | VNone \<Rightarrow> ret ''None''
      | VInt n \<Rightarrow> raise Unmodelled
      | VRef a \<Rightarrow> raise Unmodelled)"

text \<open>\<^verbatim>\<open>v[s1][s2]...\<close> and \<^verbatim>\<open>v[s1][s2]...[k] = x\<close>, subscripts evaluated left to right.\<close>

fun get_path :: "val \<Rightarrow> subscript list \<Rightarrow> val py" where
  "get_path v [] = ret v"
| "get_path v (s # ss) = bind (getitem v s) (\<lambda>w. get_path w ss)"

definition set_path :: "val \<Rightarrow> subscript list \<Rightarrow> string \<Rightarrow> val \<Rightarrow> unit py" where
  "set_path v ss k x = bind (get_path v ss) (\<lambda>target. setitem target k x)"

section \<open>The inference pipeline\<close>

text \<open>
  The members of the enumeration \<^verbatim>\<open>StepId\<close> that the pipeline uses. The enumeration is
  declared in \<^verbatim>\<open>stepfunctions.template.pipeline.common\<close> and the constant
  \<^verbatim>\<open>JOB_NAME_PARAM_NAME\<close> in \<^verbatim>\<open>sagemaker.model\<close>; their string values are parameters
  of the model.
\<close>

datatype StepId =
    TrainPreprocessor | CreatePreprocessorModel | TransformInput | Train
  | CreatePipelineModel | ConfigureEndpoint | Deploy

record env =
  StepId_value :: "StepId \<Rightarrow> string"
  JOB_NAME_PARAM_NAME :: string

text \<open>The attributes of \<^verbatim>\<open>self\<close> that \<^verbatim>\<open>execute\<close> reads.\<close>

record pipeline =
  input_template :: val
  s3_bucket :: string
  workflow_name :: string

text \<open>The arguments of the call \<^verbatim>\<open>self.workflow.execute(inputs=..., name=...)\<close>.\<close>

record execution_request =
  request_inputs :: val
  request_name :: string

definition replace_sagemaker_job_name :: "env \<Rightarrow> val \<Rightarrow> val \<Rightarrow> unit py" where
  "replace_sagemaker_job_name env config job_name =
     bind (getitem config (Key ''HyperParameters'')) (\<lambda>hp.
     bind (contains hp (JOB_NAME_PARAM_NAME env)) (\<lambda>present.
       if present then
         bind (format_arg job_name) (\<lambda>j.
         bind (getitem config (Key ''HyperParameters'')) (\<lambda>target.
           setitem target (JOB_NAME_PARAM_NAME env) (VStr (''\"'' @ j @ ''\"''))))
       else ret ()))"

definition step :: "env \<Rightarrow> StepId \<Rightarrow> subscript" where
  "step env i = Key (StepId_value env i)"

text \<open>The format strings of \<^verbatim>\<open>execute\<close>, one function for each template.\<close>

definition format_job_name :: "string \<Rightarrow> string \<Rightarrow> string" where
  "format_job_name base_name timestamp = base_name @ ''-'' @ timestamp"

definition format_models :: "string \<Rightarrow> string \<Rightarrow> string" where
  "format_models bucket pipeline_name = ''s3://'' @ bucket @ ''/'' @ pipeline_name @ ''/models''"

definition format_debug :: "string \<Rightarrow> string \<Rightarrow> string" where
  "format_debug bucket pipeline_name =
     ''s3://'' @ bucket @ ''/'' @ pipeline_name @ ''/models/debug''"

definition format_model_data :: "string \<Rightarrow> string \<Rightarrow> string" where
  "format_model_data s3_uri job = s3_uri @ ''/'' @ job @ ''/output/model.tar.gz''"

definition format_transform :: "string \<Rightarrow> string \<Rightarrow> string \<Rightarrow> string" where
  "format_transform bucket pipeline_name transform_job =
     ''s3://'' @ bucket @ ''/'' @ pipeline_name @ ''/'' @ transform_job @ ''/transform''"

definition execute :: "env \<Rightarrow> pipeline \<Rightarrow> string option \<Rightarrow> val \<Rightarrow> string \<Rightarrow> execution_request py"
  where
  "execute env self job_name_arg hyperparameters timestamp =
     bind (copy (input_template self)) (\<lambda>inputs.
     bind (if hyperparameters \<noteq> VNone
           then set_path inputs [step env Train] ''HyperParameters'' hyperparameters
           else ret ()) (\<lambda>_.
     let job_name = (case job_name_arg of
                       None \<Rightarrow> format_job_name ''inference-pipeline'' timestamp
                     | Some j \<Rightarrow> j)
     in
     bind (block [
       set_path inputs [step env TrainPreprocessor] ''TrainingJobName''
         (VStr (''preprocessor-'' @ job_name)),
       set_path inputs [step env TrainPreprocessor, Key ''OutputDataConfig''] ''S3OutputPath''
         (VStr (format_models (s3_bucket self) (workflow_name self))),
       set_path inputs [step env TrainPreprocessor, Key ''DebugHookConfig''] ''S3OutputPath''
         (VStr (format_debug (s3_bucket self) (workflow_name self))),
       bind (get_path inputs [step env TrainPreprocessor, Key ''OutputDataConfig'',
               Key ''S3OutputPath'']) (\<lambda>s3_uri.
       bind (get_path inputs [step env TrainPreprocessor, Key ''TrainingJobName'']) (\<lambda>job.
       bind (format_arg s3_uri) (\<lambda>s3_uri.
       bind (format_arg job) (\<lambda>job.
         set_path inputs [step env CreatePreprocessorModel, Key ''PrimaryContainer'']
           ''ModelDataUrl'' (VStr (format_model_data s3_uri job)))))),
       bind (get_path inputs [step env TrainPreprocessor, Key ''TrainingJobName'']) (\<lambda>name.
         set_path inputs [step env CreatePreprocessorModel] ''ModelName'' name),
       bind (get_path inputs [step env CreatePreprocessorModel, Key ''ModelName'']) (\<lambda>name.
         set_path inputs [step env TransformInput] ''ModelName'' name),
       bind (get_path inputs [step env CreatePreprocessorModel, Key ''ModelName'']) (\<lambda>name.
         set_path inputs [step env TransformInput] ''TransformJobName'' name),
       set_path inputs [step env TransformInput, Key ''TransformOutput''] ''S3OutputPath''
         (VStr (format_transform (s3_bucket self) (workflow_name self)
                  (''preprocessor-transform-'' @ job_name))),
       bind (getitem inputs (step env TrainPreprocessor)) (\<lambda>config.
       bind (get_path inputs [step env TrainPreprocessor, Key ''TrainingJobName'']) (\<lambda>name.
         replace_sagemaker_job_name env config name)),
       set_path inputs [step env Train] ''TrainingJobName'' (VStr (''estimator-'' @ job_name)),
       bind (get_path inputs [step env TransformInput, Key ''TransformOutput'',
               Key ''S3OutputPath'']) (\<lambda>s3_uri.
       bind (format_arg s3_uri) (\<lambda>s3_uri.
       bind (alloc (ODict [(''S3DataDistributionType'', VStr ''FullyReplicated''),
                           (''S3DataType'', VStr ''S3Prefix''),
                           (''S3Uri'', VStr s3_uri)])) (\<lambda>s3_data_source.
       bind (alloc (ODict [(''S3DataSource'', s3_data_source)])) (\<lambda>data_source.
       bind (alloc (ODict [(''ChannelName'', VStr ''train''),
                           (''DataSource'', data_source)])) (\<lambda>channel.
       bind (alloc (OList [channel])) (\<lambda>channels.
         set_path inputs [step env Train] ''InputDataConfig'' channels)))))),
       set_path inputs [step env Train, Key ''OutputDataConfig''] ''S3OutputPath''
         (VStr (format_models (s3_bucket self) (workflow_name self))),
       set_path inputs [step env Train, Key ''DebugHookConfig''] ''S3OutputPath''
         (VStr (format_debug (s3_bucket self) (workflow_name self))),
       set_path inputs [step env CreatePipelineModel] ''ModelName'' (VStr job_name),
       bind (getitem inputs (step env Train)) (\<lambda>config.
       bind (get_path inputs [step env Train, Key ''TrainingJobName'']) (\<lambda>name.
         replace_sagemaker_job_name env config name)),
       bind (get_path inputs [step env CreatePreprocessorModel, Key ''PrimaryContainer'',
               Key ''ModelDataUrl'']) (\<lambda>url.
         set_path inputs [step env CreatePipelineModel, Key ''Containers'', Index 0]
           ''ModelDataUrl'' url),
       bind (get_path inputs [step env Train, Key ''OutputDataConfig'',
               Key ''S3OutputPath'']) (\<lambda>s3_uri.
       bind (get_path inputs [step env Train, Key ''TrainingJobName'']) (\<lambda>job.
       bind (format_arg s3_uri) (\<lambda>s3_uri.
       bind (format_arg job) (\<lambda>job.
         set_path inputs [step env CreatePipelineModel, Key ''Containers'', Index 1]
           ''ModelDataUrl'' (VStr (format_model_data s3_uri job)))))),
       set_path inputs [step env ConfigureEndpoint] ''EndpointConfigName'' (VStr job_name),
       bind (get_path inputs [step env ConfigureEndpoint, Key ''ProductionVariants''])
         (\<lambda>variants.
       bind (iter_values variants) (\<lambda>vs.
         for_each vs (\<lambda>variant. setitem variant ''ModelName'' (VStr job_name)))),
       set_path inputs [step env Deploy] ''EndpointConfigName'' (VStr job_name),
       set_path inputs [step env Deploy] ''EndpointName'' (VStr job_name)]) (\<lambda>_.
     ret \<lparr>request_inputs = inputs, request_name = job_name\<rparr>)))"

section \<open>Reading the store\<close>

text \<open>
  Observations of a store, used to state what \<^verbatim>\<open>execute\<close> leaves in it: whether an
  address holds a dictionary, the entry of a dictionary under a key, the elements of a
  list.
\<close>

definition is_dict :: "heap \<Rightarrow> addr \<Rightarrow> bool" where
  "is_dict h a = (case lookup h a of Some (ODict d) \<Rightarrow> True | _ \<Rightarrow> False)"

definition field :: "heap \<Rightarrow> addr \<Rightarrow> string \<Rightarrow> val option" where
  "field h a k = (case lookup h a of Some (ODict d) \<Rightarrow> map_of d k | _ \<Rightarrow> None)"

definition keys :: "heap \<Rightarrow> addr \<Rightarrow> string list" where
  "keys h a = (case lookup h a of Some (ODict d) \<Rightarrow> map fst d | _ \<Rightarrow> [])"

definition elems :: "heap \<Rightarrow> addr \<Rightarrow> val list option" where
  "elems h a = (case lookup h a of Some (OList xs) \<Rightarrow> Some xs | _ \<Rightarrow> None)"

definition dict_at :: "heap \<Rightarrow> addr \<Rightarrow> dict" where
  "dict_at h a = (case lookup h a of Some (ODict d) \<Rightarrow> d | _ \<Rightarrow> [])"

text \<open>The stores that the statements of the source produce.\<close>

definition put :: "heap \<Rightarrow> addr \<Rightarrow> string \<Rightarrow> val \<Rightarrow> heap" where
  "put h a k x =
     (case lookup h a of Some (ODict d) \<Rightarrow> store h a (ODict (AList.update k x d)) | _ \<Rightarrow> h)"

definition new :: "heap \<Rightarrow> obj \<Rightarrow> heap" where
  "new h ob = h @ [ob]"

definition patch :: "env \<Rightarrow> string \<Rightarrow> heap \<Rightarrow> addr \<Rightarrow> heap" where
  "patch env s h p =
     (if JOB_NAME_PARAM_NAME env \<in> set (keys h p)
      then put h p (JOB_NAME_PARAM_NAME env) (VStr (''\"'' @ s @ ''\"'')) else h)"

fun assign_all :: "addr list \<Rightarrow> string \<Rightarrow> val \<Rightarrow> heap \<Rightarrow> heap" where
  "assign_all [] k x h = h"
| "assign_all (a # as) k x h = assign_all as k x (put h a k x)"

text \<open>The part of \<^verbatim>\<open>replace_sagemaker_job_name\<close> after its first subscription.\<close>

definition replace_at :: "env \<Rightarrow> val \<Rightarrow> val \<Rightarrow> val \<Rightarrow> unit py" where
  "replace_at env config hp job_name =
     bind (contains hp (JOB_NAME_PARAM_NAME env)) (\<lambda>present.
       if present then
         bind (format_arg job_name) (\<lambda>j.
         bind (getitem config (Key ''HyperParameters'')) (\<lambda>target.
           setitem target (JOB_NAME_PARAM_NAME env) (VStr (''\"'' @ j @ ''\"''))))
       else ret ())"

text \<open>
  The addresses of the objects of a template that \<^verbatim>\<open>execute\<close> subscripts. A store holds
  a complete template, at a layout, when the template object has the seven step
  entries, every dictionary and list that \<^verbatim>\<open>execute\<close> subscripts under them is there
  (\<^verbatim>\<open>OutputDataConfig\<close>, \<^verbatim>\<open>DebugHookConfig\<close> and \<^verbatim>\<open>HyperParameters\<close> of the two training
  steps, \<^verbatim>\<open>PrimaryContainer\<close>, \<^verbatim>\<open>TransformOutput\<close>, two \<^verbatim>\<open>Containers\<close>, the
  \<^verbatim>\<open>ProductionVariants\<close>), and the template is a tree: these are objects of their own,
  none held by two entries. Given hyperparameters take the place of the \<^verbatim>\<open>Train\<close>
  step's \<^verbatim>\<open>HyperParameters\<close>. The entries of a template come from the estimators, through
  code that is not part of the source, and not every template is complete: on one
  without a \<^verbatim>\<open>DebugHookConfig\<close>, \<^verbatim>\<open>execute\<close> raises \<^verbatim>\<open>KeyError\<close>.
\<close>

record layout =
  at_template :: addr
  at_train_preprocessor :: addr
  at_preprocessor_output :: addr
  at_preprocessor_debug :: addr
  at_preprocessor_hyper :: addr
  at_create_preprocessor_model :: addr
  at_primary_container :: addr
  at_transform_input :: addr
  at_transform_output :: addr
  at_train :: addr
  at_train_output :: addr
  at_train_debug :: addr
  at_train_hyper :: addr
  at_create_pipeline_model :: addr
  at_containers :: addr
  at_container0 :: addr
  at_container1 :: addr
  at_configure_endpoint :: addr
  at_production_variants :: addr
  at_variants :: "addr list"
  at_deploy :: addr

definition skeleton :: "layout \<Rightarrow> addr list" where
  "skeleton L =
     [at_template L, at_train_preprocessor L, at_preprocessor_output L, at_preprocessor_debug L,
      at_create_preprocessor_model L, at_primary_container L, at_transform_input L,
      at_transform_output L, at_train L, at_train_output L, at_train_debug L,
      at_create_pipeline_model L, at_containers L, at_container0 L, at_container1 L,
      at_configure_endpoint L, at_production_variants L, at_deploy L] @ at_variants L"

definition well_formed :: "env \<Rightarrow> heap \<Rightarrow> pipeline \<Rightarrow> val \<Rightarrow> layout \<Rightarrow> bool" where
  "well_formed env h self hyperparameters L \<longleftrightarrow>
     input_template self = VRef (at_template L) \<and>
     field h (at_template L) (StepId_value env TrainPreprocessor) = Some (VRef (at_train_preprocessor L)) \<and>
     field h (at_template L) (StepId_value env CreatePreprocessorModel) = Some (VRef (at_create_preprocessor_model L)) \<and>
     field h (at_template L) (StepId_value env TransformInput) = Some (VRef (at_transform_input L)) \<and>
     field h (at_template L) (StepId_value env Train) = Some (VRef (at_train L)) \<and>
     field h (at_template L) (StepId_value env CreatePipelineModel) = Some (VRef (at_create_pipeline_model L)) \<and>
     field h (at_template L) (StepId_value env ConfigureEndpoint) = Some (VRef (at_configure_endpoint L)) \<and>
     field h (at_template L) (StepId_value env Deploy) = Some (VRef (at_deploy L)) \<and>
     field h (at_train_preprocessor L) ''OutputDataConfig'' = Some (VRef (at_preprocessor_output L)) \<and>
     is_dict h (at_preprocessor_output L) \<and>
     field h (at_train_preprocessor L) ''DebugHookConfig'' = Some (VRef (at_preprocessor_debug L)) \<and>
     is_dict h (at_preprocessor_debug L) \<and>
     field h (at_train_preprocessor L) ''HyperParameters'' = Some (VRef (at_preprocessor_hyper L)) \<and>
     is_dict h (at_preprocessor_hyper L) \<and>
     field h (at_create_preprocessor_model L) ''PrimaryContainer'' = Some (VRef (at_primary_container L)) \<and>
     is_dict h (at_primary_container L) \<and>
     field h (at_transform_input L) ''TransformOutput'' = Some (VRef (at_transform_output L)) \<and>
     is_dict h (at_transform_output L) \<and>
     field h (at_train L) ''OutputDataConfig'' = Some (VRef (at_train_output L)) \<and>
     is_dict h (at_train_output L) \<and>
     field h (at_train L) ''DebugHookConfig'' = Some (VRef (at_train_debug L)) \<and>
     is_dict h (at_train_debug L) \<and>
     (if hyperparameters = VNone then field h (at_train L) ''HyperParameters''
      else Some hyperparameters) = Some (VRef (at_train_hyper L)) \<and>
     is_dict h (at_train_hyper L) \<and>
     field h (at_create_pipeline_model L) ''Containers'' = Some (VRef (at_containers L)) \<and>
     (case elems h (at_containers L) of
        None \<Rightarrow> False
      | Some xs \<Rightarrow> py_index xs 0 = Some (VRef (at_container0 L)) \<and>
                  py_index xs 1 = Some (VRef (at_container1 L))) \<and>
     is_dict h (at_container0 L) \<and>
     is_dict h (at_container1 L) \<and>
     field h (at_configure_endpoint L) ''ProductionVariants'' = Some (VRef (at_production_variants L)) \<and>
     elems h (at_production_variants L) = Some (map VRef (at_variants L)) \<and>
     list_all (is_dict h) (at_variants L) \<and>
     is_dict h (at_deploy L) \<and>
     distinct (skeleton L) \<and>
     at_preprocessor_hyper L \<notin> set (skeleton L) \<and>
     at_train_hyper L \<notin> set (skeleton L)"


text \<open>The job name that \<^verbatim>\<open>execute\<close> works with.\<close>

definition job_name_of :: "string option \<Rightarrow> string \<Rightarrow> string" where
  "job_name_of job_name_arg timestamp =
     (case job_name_arg of
        None \<Rightarrow> format_job_name ''inference-pipeline'' timestamp
      | Some j \<Rightarrow> j)"

text \<open>
  The store \<open>h'\<close> that a call of \<^verbatim>\<open>execute\<close> which returns leaves, from a store \<open>h\<close> with
  a complete template: the copy at the first new address, the four objects of the
  \<^verbatim>\<open>InputDataConfig\<close> after it, and every entry of the template's dictionaries either
  written by the call or as it was.
\<close>

definition patched :: "pipeline \<Rightarrow> string \<Rightarrow> layout \<Rightarrow> heap \<Rightarrow> heap \<Rightarrow> bool" where
  "patched self j L h h' \<longleftrightarrow>
     length h' = length h + 5 \<and>
     lookup h' (at_template L) = lookup h (at_template L) \<and>
     (\<forall>a. is_dict h a \<longrightarrow> is_dict h' a) \<and>
     (\<forall>a. elems h a \<noteq> None \<longrightarrow> elems h' a = elems h a) \<and>
     (\<forall>k. field h' (length h) k = field h (at_template L) k) \<and>
     (\<forall>k. field h' (at_template L) k = field h (at_template L) k) \<and>
     (\<forall>k. field h' (at_train_preprocessor L) k =
        (if k = ''TrainingJobName'' then Some (VStr (''preprocessor-'' @ j))
         else field h (at_train_preprocessor L) k)) \<and>
     (\<forall>k. field h' (at_preprocessor_output L) k =
        (if k = ''S3OutputPath''
         then Some (VStr (format_models (s3_bucket self) (workflow_name self)))
         else field h (at_preprocessor_output L) k)) \<and>
     (\<forall>k. field h' (at_preprocessor_debug L) k =
        (if k = ''S3OutputPath''
         then Some (VStr (format_debug (s3_bucket self) (workflow_name self)))
         else field h (at_preprocessor_debug L) k)) \<and>
     (\<forall>k. field h' (at_create_preprocessor_model L) k =
        (if k = ''ModelName'' then Some (VStr (''preprocessor-'' @ j))
         else field h (at_create_preprocessor_model L) k)) \<and>
     (\<forall>k. field h' (at_primary_container L) k =
        (if k = ''ModelDataUrl''
         then Some (VStr (format_model_data
                            (format_models (s3_bucket self) (workflow_name self))
                            (''preprocessor-'' @ j)))
         else field h (at_primary_container L) k)) \<and>
     (\<forall>k. field h' (at_transform_input L) k =
        (if k = ''ModelName'' \<or> k = ''TransformJobName''
         then Some (VStr (''preprocessor-'' @ j))
         else field h (at_transform_input L) k)) \<and>
     (\<forall>k. field h' (at_transform_output L) k =
        (if k = ''S3OutputPath''
         then Some (VStr (format_transform (s3_bucket self) (workflow_name self)
                            (''preprocessor-transform-'' @ j)))
         else field h (at_transform_output L) k)) \<and>
     (\<forall>k. field h' (at_train L) k =
        (if k = ''TrainingJobName'' then Some (VStr (''estimator-'' @ j))
         else if k = ''InputDataConfig'' then Some (VRef (length h + 4))
         else if k = ''HyperParameters'' then Some (VRef (at_train_hyper L))
         else field h (at_train L) k)) \<and>
     (\<forall>k. field h' (at_train_output L) k =
        (if k = ''S3OutputPath''
         then Some (VStr (format_models (s3_bucket self) (workflow_name self)))
         else field h (at_train_output L) k)) \<and>
     (\<forall>k. field h' (at_train_debug L) k =
        (if k = ''S3OutputPath''
         then Some (VStr (format_debug (s3_bucket self) (workflow_name self)))
         else field h (at_train_debug L) k)) \<and>
     (\<forall>k. field h' (at_create_pipeline_model L) k =
        (if k = ''ModelName'' then Some (VStr j)
         else field h (at_create_pipeline_model L) k)) \<and>
     (\<forall>k. field h' (at_container0 L) k =
        (if k = ''ModelDataUrl''
         then Some (VStr (format_model_data
                            (format_models (s3_bucket self) (workflow_name self))
                            (''preprocessor-'' @ j)))
         else field h (at_container0 L) k)) \<and>
     (\<forall>k. field h' (at_container1 L) k =
        (if k = ''ModelDataUrl''
         then Some (VStr (format_model_data
                            (format_models (s3_bucket self) (workflow_name self))
                            (''estimator-'' @ j)))
         else field h (at_container1 L) k)) \<and>
     (\<forall>k. field h' (at_configure_endpoint L) k =
        (if k = ''EndpointConfigName'' then Some (VStr j)
         else field h (at_configure_endpoint L) k)) \<and>
     (\<forall>a \<in> set (at_variants L). \<forall>k. field h' a k =
        (if k = ''ModelName'' then Some (VStr j) else field h a k)) \<and>
     (\<forall>k. field h' (at_deploy L) k =
        (if k = ''EndpointConfigName'' \<or> k = ''EndpointName'' then Some (VStr j)
         else field h (at_deploy L) k)) \<and>
     elems h' (length h + 4) = Some [VRef (length h + 3)] \<and>
     (\<forall>k. field h' (length h + 3) k =
        map_of [(''ChannelName'', VStr ''train''), (''DataSource'', VRef (length h + 2))] k) \<and>
     (\<forall>k. field h' (length h + 2) k = map_of [(''S3DataSource'', VRef (length h + 1))] k) \<and>
     (\<forall>k. field h' (length h + 1) k =
        map_of [(''S3DataDistributionType'', VStr ''FullyReplicated''),
                (''S3DataType'', VStr ''S3Prefix''),
                (''S3Uri'', VStr (format_transform (s3_bucket self) (workflow_name self)
                                   (''preprocessor-transform-'' @ j)))] k)"

section \<open>Sharing between the template and the inputs of an execution\<close>








text \<open>A value that is neither a reference to \<open>t\<close> or \<open>c\<close> nor to an address from \<open>n\<close> on.\<close>

definition good :: "addr \<Rightarrow> addr \<Rightarrow> nat \<Rightarrow> val \<Rightarrow> bool" where
  "good t c n v = (case v of VRef b \<Rightarrow> b < n \<and> b \<noteq> t \<and> b \<noteq> c | _ \<Rightarrow> True)"

text \<open>
  A statement keeps \<open>I\<close>, whether it returns or raises, never shrinks the store, and
  returns a value in \<open>Q\<close>, from every store of at least \<open>n\<close> objects.
\<close>

definition triple :: "(heap \<Rightarrow> bool) \<Rightarrow> nat \<Rightarrow> 'a py \<Rightarrow> (nat \<Rightarrow> 'a \<Rightarrow> bool) \<Rightarrow> bool" where
  "triple I n m Q \<longleftrightarrow>
     (\<forall>h. I h \<and> n \<le> length h \<longrightarrow>
        (case m h of (r, h') \<Rightarrow>
           I h' \<and> length h \<le> length h' \<and>
           (case r of Inl e \<Rightarrow> True | Inr y \<Rightarrow> Q (length h') y)))"


section \<open>Construction of the pipeline\<close>

text \<open>
  \<^verbatim>\<open>__init__\<close> and \<^verbatim>\<open>build_workflow_definition\<close> call into the sagemaker package and
  into \<^verbatim>\<open>stepfunctions.steps\<close>, neither of which is part of the source. The objects of
  sagemaker (estimators, models, transformers, roles, instance types, clients) are
  values of a type \<open>'o\<close> about which nothing is assumed. Reading an attribute of such an
  object, calling one of its methods and calling a sagemaker class are parameters of
  the model, collected in the record \<open>sdk\<close>: each returns an object or raises. They are
  functions of their arguments and do not touch the store, so in particular they do
  not change the dictionary given as \<^verbatim>\<open>inputs\<close>.
\<close>

datatype 'o arg = Value val | Object 'o | Objects "'o list" | Dict "(string \<times> 'o arg) list"

type_synonym 'o kwargs = "(string \<times> 'o arg) list"

text \<open>
  Modelled from the spec: the state classes of \<^verbatim>\<open>stepfunctions.steps\<close> that the source
  imports (\<^verbatim>\<open>TrainingStep\<close>, \<^verbatim>\<open>TransformStep\<close>, \<^verbatim>\<open>ModelStep\<close>, \<^verbatim>\<open>EndpointConfigStep\<close>,
  \<^verbatim>\<open>EndpointStep\<close>, \<^verbatim>\<open>Fail\<close>, and the \<^verbatim>\<open>Catch\<close> clause and \<^verbatim>\<open>Chain\<close>) are not part of
  the source. A state is modelled by its class, its id, its \<^verbatim>\<open>parameters\<close> attribute and
  the \<^verbatim>\<open>Catch\<close> clauses added to it; a catch clause by the error names it matches and
  the id of the state it continues with; a chain by its states in order.
\<close>

datatype step_class =
  TrainingStep | TransformStep | ModelStep | EndpointConfigStep | EndpointStep | Fail

datatype catch = Catch (error_equals: "string list") (next_step: string)

record 'o state =
  step_class :: step_class
  state_id :: string
  parameters :: "'o arg"
  catches :: "catch list"

datatype 'o chain = Chain (states: "'o state list")

record 'o sdk =
  attribute :: "'o \<Rightarrow> string \<Rightarrow> error + 'o"
  call_method :: "'o \<Rightarrow> string \<Rightarrow> 'o kwargs \<Rightarrow> error + 'o"
  construct :: "string \<Rightarrow> 'o kwargs \<Rightarrow> error + 'o"
  step_parameters :: "step_class \<Rightarrow> 'o kwargs \<Rightarrow> error + 'o arg"
  extract_input_template :: "'o chain \<Rightarrow> val py"
  Workflow :: "string \<Rightarrow> 'o chain \<Rightarrow> 'o \<Rightarrow> 'o option \<Rightarrow> error + unit"

text \<open>A call that returns or raises and leaves the store alone.\<close>

definition call :: "error + 'a \<Rightarrow> 'a py" where
  "call r = (\<lambda>h. case r of Inl e \<Rightarrow> (Inl e, h) | Inr x \<Rightarrow> (Inr x, h))"

text \<open>
  Modelled from the spec: the constructor of a state class, which is not part of the
  source. It computes the parameters of the state from the keyword arguments, which
  may raise and is a parameter of the model, and returns a state of the class, under
  the given id, with no \<^verbatim>\<open>Catch\<close> clause: a state gets one only by \<^verbatim>\<open>add_catch\<close>.
\<close>

definition new_step :: "'o sdk \<Rightarrow> step_class \<Rightarrow> string \<Rightarrow> 'o kwargs \<Rightarrow> 'o state py" where
  "new_step sdk cls name kwargs =
     bind (call (step_parameters sdk cls kwargs)) (\<lambda>p.
     ret \<lparr>step_class = cls, state_id = name, parameters = p, catches = []\<rparr>)"

text \<open>
  Modelled from the spec: what the workflow service does when a state raises an error,
  which is not part of the source. The first \<^verbatim>\<open>Catch\<close> clause of the state that names
  the error, or \<^verbatim>\<open>States.ALL\<close>, gives the state to continue with; with no such clause
  the error is not handled and the execution fails with it.
\<close>

definition handler :: "'o state \<Rightarrow> string \<Rightarrow> string option" where
  "handler s err =
     map_option next_step
       (find (\<lambda>c. err \<in> set (error_equals c) \<or> ''States.ALL'' \<in> set (error_equals c))
          (catches s))"

text \<open>The attributes of \<^verbatim>\<open>self\<close> that \<^verbatim>\<open>build_workflow_definition\<close> reads.\<close>

record 'o attributes =
  preprocessor :: 'o
  estimator :: 'o
  inputs :: val
  compression_type :: val
  content_type :: val
  pipeline_name :: string

definition pipeline_model_config :: "'o sdk \<Rightarrow> 'o \<Rightarrow> 'o \<Rightarrow> 'o arg py" where
  "pipeline_model_config sdk instance_type pipeline_model =
     bind (call (call_method sdk pipeline_model ''pipeline_container_def''
                   [(''instance_type'', Object instance_type)])) (\<lambda>containers.
     bind (call (attribute sdk pipeline_model ''role'')) (\<lambda>role.
     ret (Dict [(''ModelName'', Value (VStr ''pipeline-model'')),
                (''Containers'', Object containers),
                (''ExecutionRoleArn'', Object role)])))"

text \<open>
  The arguments of a call are evaluated from left to right before the call, so
  \<^verbatim>\<open>self.inputs['train']\<close> is evaluated after \<^verbatim>\<open>self.preprocessor.transformer(...)\<close> and
  before the constructor of the \<^verbatim>\<open>TransformInput\<close> step.
\<close>

definition build_workflow_definition :: "'o sdk \<Rightarrow> env \<Rightarrow> 'o attributes \<Rightarrow> 'o chain py" where
  "build_workflow_definition sdk env self =
     (let default_name = pipeline_name self in
     bind (call (attribute sdk (preprocessor self) ''train_instance_type''))
       (\<lambda>train_instance_type.
     bind (call (attribute sdk (preprocessor self) ''train_instance_count''))
       (\<lambda>train_instance_count.
     bind (new_step sdk TrainingStep (StepId_value env TrainPreprocessor)
             [(''estimator'', Object (preprocessor self)),
              (''job_name'', Value (VStr (default_name @ ''/preprocessor-source''))),
              (''data'', Value (inputs self))]) (\<lambda>preprocessor_train_step.
     bind (call (call_method sdk (preprocessor self) ''create_model'' [])) (\<lambda>preprocessor_model.
     bind (new_step sdk ModelStep (StepId_value env CreatePreprocessorModel)
             [(''instance_type'', Object train_instance_type),
              (''model'', Object preprocessor_model),
              (''model_name'', Value (VStr default_name))]) (\<lambda>preprocessor_model_step.
     bind (call (call_method sdk (preprocessor self) ''transformer''
                   [(''instance_count'', Object train_instance_count),
                    (''instance_type'', Object train_instance_type),
                    (''max_payload'', Value (VInt 20))])) (\<lambda>transformer.
     bind (getitem (inputs self) (Key ''train'')) (\<lambda>data.
     bind (new_step sdk TransformStep (StepId_value env TransformInput)
             [(''transformer'', Object transformer),
              (''job_name'', Value (VStr default_name)),
              (''model_name'', Value (VStr default_name)),
              (''data'', Value data),
              (''compression_type'', Value (compression_type self)),
              (''content_type'', Value (content_type self))]) (\<lambda>preprocessor_transform_step.
     bind (call (attribute sdk (estimator self) ''train_instance_type''))
       (\<lambda>train_instance_type.
     bind (call (attribute sdk (estimator self) ''train_instance_count''))
       (\<lambda>train_instance_count.
     bind (new_step sdk TrainingStep (StepId_value env Train)
             [(''estimator'', Object (estimator self)),
              (''job_name'', Value (VStr (default_name @ ''/estimator-source''))),
              (''data'', Value (inputs self))]) (\<lambda>training_step.
     bind (call (attribute sdk (estimator self) ''role'')) (\<lambda>role.
     bind (call (call_method sdk (preprocessor self) ''create_model'' [])) (\<lambda>first_model.
     bind (call (call_method sdk (estimator self) ''create_model'' [])) (\<lambda>second_model.
     bind (call (construct sdk ''PipelineModel''
                   [(''name'', Value (VStr ''PipelineModel'')),
                    (''role'', Object role),
                    (''models'', Objects [first_model, second_model])])) (\<lambda>pipeline_model.
     bind (new_step sdk ModelStep (StepId_value env CreatePipelineModel)
             [(''instance_type'', Object train_instance_type),
              (''model'', Object preprocessor_model),
              (''model_name'', Value (VStr default_name))]) (\<lambda>pipeline_model_step.
     bind (pipeline_model_config sdk train_instance_type pipeline_model) (\<lambda>config.
     let pipeline_model_step = pipeline_model_step\<lparr>parameters := config\<rparr> in
     bind (call (construct sdk ''Model''
                   [(''model_data'', Value (VStr [])), (''image'', Value (VStr []))]))
       (\<lambda>deployable_model.
     bind (new_step sdk EndpointConfigStep (StepId_value env ConfigureEndpoint)
             [(''endpoint_config_name'', Value (VStr default_name)),
              (''model_name'', Value (VStr default_name)),
              (''initial_instance_count'', Object train_instance_count),
              (''instance_type'', Object train_instance_type)]) (\<lambda>endpoint_config_step.
     bind (new_step sdk EndpointStep (StepId_value env Deploy)
             [(''endpoint_name'', Value (VStr default_name)),
              (''endpoint_config_name'', Value (VStr default_name))]) (\<lambda>deploy_step.
     ret (Chain [preprocessor_train_step, preprocessor_model_step,
                 preprocessor_transform_step, training_step, pipeline_model_step,
                 endpoint_config_step, deploy_step]))))))))))))))))))))))"

text \<open>
  The pipeline object that \<^verbatim>\<open>__init__\<close> leaves: the attributes that \<^verbatim>\<open>execute\<close> reads,
  those that \<^verbatim>\<open>build_workflow_definition\<close> reads, \<^verbatim>\<open>self.definition\<close> and the definition
  of \<^verbatim>\<open>self.workflow\<close>.
\<close>

record 'o inference_pipeline = pipeline +
  attributes :: "'o attributes"
  self_definition :: "'o chain"
  workflow_definition :: "'o chain"

text \<open>
  \<^verbatim>\<open>__init__\<close>. The keyword arguments are the three of \<^verbatim>\<open>__allowed_kwargs\<close>, \<^verbatim>\<open>None\<close> when
  not given; \<open>timestamp\<close> is what \<^verbatim>\<open>_generate_timestamp()\<close> returns. The methods
  \<^verbatim>\<open>_extract_input_template\<close> and \<^verbatim>\<open>__init__\<close> of the base class \<^verbatim>\<open>WorkflowTemplate\<close> and the
  class \<^verbatim>\<open>Workflow\<close> are not part of the source: the first and the construction of the
  workflow are parameters of the model, and the base class stores the workflow, whose
  name and definition are the arguments that \<^verbatim>\<open>Workflow\<close> was called with.
\<close>

definition init ::
  "'o sdk \<Rightarrow> env \<Rightarrow> 'o \<Rightarrow> 'o \<Rightarrow> val \<Rightarrow> string \<Rightarrow> 'o \<Rightarrow> 'o option \<Rightarrow> val \<Rightarrow> val \<Rightarrow> string option
     \<Rightarrow> string \<Rightarrow> 'o inference_pipeline py" where
  "init sdk env preprocessor' estimator' inputs' s3_bucket' role client
        compression_type' content_type' pipeline_name' timestamp =
     (let name =
            (case pipeline_name' of
               None \<Rightarrow> ''inference-pipeline-'' @ timestamp
             | Some given \<Rightarrow> if given = [] then ''inference-pipeline-'' @ timestamp else given);
          self = \<lparr>preprocessor = preprocessor', estimator = estimator', inputs = inputs',
                  compression_type = compression_type', content_type = content_type',
                  pipeline_name = name\<rparr>
      in
      bind (build_workflow_definition sdk env self) (\<lambda>built.
      bind (extract_input_template sdk built) (\<lambda>template.
      bind (call (Workflow sdk name built role client)) (\<lambda>_.
      ret \<lparr>input_template = template, s3_bucket = s3_bucket',
           workflow_name = name, attributes = self,
           self_definition = built, workflow_definition = built\<rparr>))))"

text \<open>An SDK in which every call returns, with objects named by strings.\<close>

definition example_sdk :: "string sdk" where
  "example_sdk =
     \<lparr>attribute = (\<lambda>ob name. Inr (ob @ ''.'' @ name)),
      call_method = (\<lambda>ob name kwargs. Inr (ob @ ''.'' @ name @ ''()'')),
      construct = (\<lambda>name kwargs. Inr name),
      step_parameters = (\<lambda>cls kwargs. Inr (Dict kwargs)),
      extract_input_template = (\<lambda>built. alloc (ODict [])),
      Workflow = (\<lambda>name built role client. Inr ())\<rparr>"

definition example_inputs :: heap where
  "example_inputs = [ODict [(''train'', VStr ''s3://bkt/train'')], ODict [(''test'', VStr ''s3://bkt/test'')]]"

definition example_attributes :: "string attributes" where
  "example_attributes =
     \<lparr>preprocessor = ''pre'', estimator = ''est'', inputs = VRef 0,
      compression_type = VNone, content_type = VNone, pipeline_name = ''pipe''\<rparr>"

text \<open>A pipeline and a store to run the model on.\<close>

definition example_env :: env where
  "example_env =
     \<lparr>StepId_value = (\<lambda>i. case i of
          TrainPreprocessor \<Rightarrow> ''Train Preprocessor''
        | CreatePreprocessorModel \<Rightarrow> ''Create Preprocessor Model''
        | TransformInput \<Rightarrow> ''Transform Input''
        | Train \<Rightarrow> ''Training''
        | CreatePipelineModel \<Rightarrow> ''Create Pipeline Model''
        | ConfigureEndpoint \<Rightarrow> ''Configure Endpoint''
        | Deploy \<Rightarrow> ''Deploy''),
      JOB_NAME_PARAM_NAME = ''sagemaker_job_name''\<rparr>"

definition example_store :: heap where
  "example_store = [
    ODict [(''Train Preprocessor'', VRef 1), (''Create Preprocessor Model'', VRef 5),
           (''Transform Input'', VRef 7), (''Training'', VRef 9),
           (''Create Pipeline Model'', VRef 13), (''Configure Endpoint'', VRef 17),
           (''Deploy'', VRef 20)],
    ODict [(''TrainingJobName'', VStr ''p/preprocessor-source''),
           (''OutputDataConfig'', VRef 2), (''DebugHookConfig'', VRef 3),
           (''HyperParameters'', VRef 4)],
    ODict [(''S3OutputPath'', VStr ''s3://x/'')],
    ODict [(''S3OutputPath'', VStr ''s3://x/debug'')],
    ODict [(''sagemaker_job_name'', VStr ''old''), (''k'', VStr ''3'')],
    ODict [(''ModelName'', VStr ''p''), (''PrimaryContainer'', VRef 6)],
    ODict [(''Image'', VStr ''img''), (''ModelDataUrl'', VStr ''s3://x/m'')],
    ODict [(''ModelName'', VStr ''p''), (''TransformJobName'', VStr ''p''),
           (''TransformOutput'', VRef 8)],
    ODict [(''S3OutputPath'', VStr ''s3://x/t'')],
    ODict [(''TrainingJobName'', VStr ''p/estimator-source''),
           (''OutputDataConfig'', VRef 10), (''DebugHookConfig'', VRef 11),
           (''HyperParameters'', VRef 12)],
    ODict [(''S3OutputPath'', VStr ''s3://x/'')],
    ODict [(''S3OutputPath'', VStr ''s3://x/debug'')],
    ODict [(''depth'', VStr ''5'')],
    ODict [(''ModelName'', VStr ''pipeline-model''), (''Containers'', VRef 14)],
    OList [VRef 15, VRef 16],
    ODict [(''Image'', VStr ''img1''), (''ModelDataUrl'', VStr ''s3://x/m1'')],
    ODict [(''Image'', VStr ''img2''), (''ModelDataUrl'', VStr ''s3://x/m2'')],
    ODict [(''EndpointConfigName'', VStr ''p''), (''ProductionVariants'', VRef 18)],
    OList [VRef 19],
    ODict [(''ModelName'', VStr ''p''), (''InitialInstanceCount'', VInt 1)],
    ODict [(''EndpointConfigName'', VStr ''p''), (''EndpointName'', VStr ''p'')],
    ODict [(''sagemaker_job_name'', VStr ''mine''), (''eta'', VStr ''0.1'')]]"

definition example_pipeline :: pipeline where
  "example_pipeline = \<lparr>input_template = VRef 0, s3_bucket = ''bkt'', workflow_name = ''pipe''\<rparr>"

definition example_layout :: layout where
  "example_layout =
     \<lparr>at_template = 0, at_train_preprocessor = 1, at_preprocessor_output = 2,
      at_preprocessor_debug = 3, at_preprocessor_hyper = 4, at_create_preprocessor_model = 5,
      at_primary_container = 6, at_transform_input = 7, at_transform_output = 8,
      at_train = 9, at_train_output = 10, at_train_debug = 11, at_train_hyper = 21,
      at_create_pipeline_model = 13, at_containers = 14, at_container0 = 15,
      at_container1 = 16, at_configure_endpoint = 17, at_production_variants = 18,
      at_variants = [19], at_deploy = 20\<rparr>"

text \<open>
  The same store with a template as it is for an estimator without a debugger hook
  configuration: the \<^verbatim>\<open>Train\<close> step, respectively the \<^verbatim>\<open>TrainPreprocessor\<close> step, has no
  \<^verbatim>\<open>DebugHookConfig\<close>.
\<close>

definition example_store_plain_estimator :: heap where
  "example_store_plain_estimator =
     example_store[9 := ODict [(''TrainingJobName'', VStr ''p/estimator-source''),
                               (''OutputDataConfig'', VRef 10),
                               (''HyperParameters'', VRef 12)]]"

definition example_store_plain_preprocessor :: heap where
  "example_store_plain_preprocessor =
     example_store[1 := ODict [(''TrainingJobName'', VStr ''p/preprocessor-source''),
                               (''OutputDataConfig'', VRef 2),
                               (''HyperParameters'', VRef 4)]]"

text \<open>
  The same store with a template that is complete but not a tree: the two training
  steps are one dictionary, whose \<^verbatim>\<open>OutputDataConfig\<close> and \<^verbatim>\<open>DebugHookConfig\<close> are one
  dictionary, which is also the \<^verbatim>\<open>TransformOutput\<close>, and the two containers are one
  dictionary.
\<close>

definition example_store_shared :: heap where
  "example_store_shared =
     example_store
       [0 := ODict [(''Train Preprocessor'', VRef 1), (''Create Preprocessor Model'', VRef 5),
                    (''Transform Input'', VRef 7), (''Training'', VRef 1),
                    (''Create Pipeline Model'', VRef 13), (''Configure Endpoint'', VRef 17),
                    (''Deploy'', VRef 20)],
        1 := ODict [(''TrainingJobName'', VStr ''p/preprocessor-source''),
                    (''OutputDataConfig'', VRef 2), (''DebugHookConfig'', VRef 2),
                    (''HyperParameters'', VRef 4)],
        7 := ODict [(''ModelName'', VStr ''p''), (''TransformJobName'', VStr ''p''),
                    (''TransformOutput'', VRef 2)],
        14 := OList [VRef 15, VRef 15]]"



section \<open>Proofs\<close>

subsection \<open>The store\<close>

lemma lookup_store:
  "lookup (store h a ob) b = (if b = a \<and> a < length h then Some ob else lookup h b)"
  by (simp add: lookup_def store_def)

lemma length_store: "length (store h a ob) = length h"
  by (simp add: store_def)

lemma lookup_less: "lookup h a = Some ob \<Longrightarrow> a < length h"
  by (simp add: lookup_def split: if_splits)

lemma lookup_put:
  "lookup (put h a k x) b =
     (if b = a
      then (case lookup h a of Some (ODict d) \<Rightarrow> Some (ODict (AList.update k x d)) | r \<Rightarrow> r)
      else lookup h b)"
proof (cases "lookup h a")
  case None
  then show ?thesis by (simp add: put_def)
next
  case (Some ob)
  then have "a < length h" by (rule lookup_less)
  with Some show ?thesis by (cases ob) (simp_all add: put_def lookup_store)
qed

lemma lookup_new:
  "lookup (new h ob) a = (if a = length h then Some ob else lookup h a)"
  by (simp add: lookup_def new_def nth_append)

lemma is_dict_less: "is_dict h a \<Longrightarrow> a < length h"
  by (auto simp: is_dict_def lookup_def split: if_splits)

lemma field_is_dict: "field h a k = Some x \<Longrightarrow> is_dict h a"
  by (auto simp: field_def is_dict_def split: option.splits obj.splits)

lemma elems_less: "elems h a = Some xs \<Longrightarrow> a < length h"
  by (auto simp: elems_def lookup_def split: if_splits)

lemma map_of_dict_at: "map_of (dict_at h a) k = field h a k"
  by (simp add: dict_at_def field_def split: option.splits obj.splits)

text \<open>Item assignment.\<close>

lemma length_put: "length (put h a k x) = length h"
  by (simp add: put_def length_store split: option.splits obj.splits)

lemma is_dict_put: "is_dict (put h a k x) b = is_dict h b"
  by (simp add: is_dict_def lookup_put split: option.splits obj.splits)

lemma is_dict_put_fun: "is_dict (put h a k x) = is_dict h"
  by (rule ext) (rule is_dict_put)

lemma field_put:
  "field (put h a k x) b k' = (if b = a \<and> k' = k \<and> is_dict h a then Some x else field h b k')"
  by (simp add: field_def is_dict_def lookup_put update_conv' split: option.splits obj.splits)

lemma field_put_other: "b \<noteq> a \<Longrightarrow> field (put h a k x) b k' = field h b k'"
  by (simp add: field_put)

lemma field_put_other_key: "k' \<noteq> k \<Longrightarrow> field (put h a k x) b k' = field h b k'"
  by (simp add: field_put)

lemma field_put_same: "is_dict h a \<Longrightarrow> field (put h a k x) a k = Some x"
  by (simp add: field_put)

lemma elems_put: "elems (put h a k x) b = elems h b"
  by (simp add: elems_def lookup_put split: option.splits obj.splits)

lemma keys_put:
  "keys (put h a k x) b =
     (if b = a \<and> is_dict h a then (if k \<in> set (keys h a) then keys h a else keys h a @ [k])
      else keys h b)"
  by (simp add: keys_def is_dict_def lookup_put update_keys split: option.splits obj.splits)

text \<open>Allocation.\<close>

lemma length_new: "length (new h ob) = Suc (length h)"
  by (simp add: new_def)

lemma is_dict_new:
  "is_dict (new h ob) a =
     (if a = length h then (case ob of ODict d \<Rightarrow> True | OList xs \<Rightarrow> False) else is_dict h a)"
  by (simp add: is_dict_def lookup_new split: obj.splits)

lemma field_new:
  "field (new h ob) a k =
     (if a = length h then (case ob of ODict d \<Rightarrow> map_of d k | OList xs \<Rightarrow> None)
      else field h a k)"
  by (simp add: field_def lookup_new split: obj.splits)

lemma elems_new:
  "elems (new h ob) a =
     (if a = length h then (case ob of ODict d \<Rightarrow> None | OList xs \<Rightarrow> Some xs) else elems h a)"
  by (simp add: elems_def lookup_new split: obj.splits)

lemma is_dict_new_old: "is_dict h a \<Longrightarrow> is_dict (new h ob) a"
  using is_dict_less [of h a] by (simp add: is_dict_new)

lemma is_dict_new_fresh: "is_dict (new h (ODict d)) (length h)"
  by (simp add: is_dict_new)

lemma field_new_old: "is_dict h a \<Longrightarrow> field (new h ob) a k = field h a k"
  using is_dict_less [of h a] by (simp add: field_new)

lemma field_new_other: "a \<noteq> length h \<Longrightarrow> field (new h ob) a k = field h a k"
  by (simp add: field_new)

lemma field_new_fresh: "field (new h (ODict d)) (length h) k = map_of d k"
  by (simp add: field_new)

lemma elems_new_old: "elems h a \<noteq> None \<Longrightarrow> elems (new h ob) a = elems h a"
  using elems_less [of h a] by (auto simp: elems_new)

lemma elems_new_other: "a \<noteq> length h \<Longrightarrow> elems (new h ob) a = elems h a"
  by (simp add: elems_new)

lemma elems_new_fresh: "elems (new h (OList xs)) (length h) = Some xs"
  by (simp add: elems_new)

lemma list_all_is_dict_new: "list_all (is_dict h) as \<Longrightarrow> list_all (is_dict (new h ob)) as"
  by (simp add: list_all_iff is_dict_new_old)

lemma is_dict_fresh: "is_dict h a \<Longrightarrow> a \<noteq> length h" "is_dict h a \<Longrightarrow> length h \<noteq> a"
  using is_dict_less [of h a] by auto

lemma list_all_fresh: "list_all (is_dict h) as \<Longrightarrow> length h \<notin> set as"
  using is_dict_less [of h "length h"] by (auto simp: list_all_iff)

text \<open>The job-name entry of the hyperparameters.\<close>

lemma length_patch: "length (patch env s h p) = length h"
  by (simp add: patch_def length_put)

lemma is_dict_patch: "is_dict (patch env s h p) a = is_dict h a"
  by (simp add: patch_def is_dict_put)

lemma is_dict_patch_fun: "is_dict (patch env s h p) = is_dict h"
  by (rule ext) (rule is_dict_patch)

lemma elems_patch: "elems (patch env s h p) a = elems h a"
  by (simp add: patch_def elems_put)

lemma field_patch: "a \<noteq> p \<Longrightarrow> field (patch env s h p) a k = field h a k"
  by (simp add: patch_def field_put)

text \<open>The loop over the production variants.\<close>

lemma length_assign_all: "length (assign_all as k x h) = length h"
  by (induction as arbitrary: h) (simp_all add: length_put)

lemma is_dict_assign_all: "is_dict (assign_all as k x h) a = is_dict h a"
  by (induction as arbitrary: h) (simp_all add: is_dict_put)

lemma is_dict_assign_all_fun: "is_dict (assign_all as k x h) = is_dict h"
  by (rule ext) (rule is_dict_assign_all)

lemma elems_assign_all: "elems (assign_all as k x h) a = elems h a"
  by (induction as arbitrary: h) (simp_all add: elems_put)

lemma field_assign_all:
  "field (assign_all as k x h) b k' =
     (if b \<in> set as \<and> k' = k \<and> is_dict h b then Some x else field h b k')"
  by (induction as arbitrary: h) (auto simp: field_put is_dict_put)

lemma field_assign_all_other:
  "b \<notin> set as \<Longrightarrow> field (assign_all as k x h) b k' = field h b k'"
  by (simp add: field_assign_all)

text \<open>Objects that a statement does not write to.\<close>

lemma lookup_put_other: "b \<noteq> a \<Longrightarrow> lookup (put h a k x) b = lookup h b"
  by (simp add: lookup_put)

lemma lookup_new_old: "is_dict h a \<Longrightarrow> lookup (new h ob) a = lookup h a"
  using is_dict_less [of h a] by (simp add: lookup_new)

lemma lookup_patch_other: "a \<noteq> p \<Longrightarrow> lookup (patch env s h p) a = lookup h a"
  by (simp add: patch_def lookup_put)

lemma lookup_assign_all_other:
  "b \<notin> set as \<Longrightarrow> lookup (assign_all as k x h) b = lookup h b"
  by (induction as arbitrary: h) (simp_all add: lookup_put)

lemmas lookup_simps = lookup_put_other lookup_new_old lookup_patch_other lookup_assign_all_other

lemmas length_simps = length_put length_new length_patch length_assign_all

lemmas is_dict_simps = is_dict_put is_dict_patch is_dict_assign_all is_dict_put_fun
  is_dict_patch_fun is_dict_assign_all_fun is_dict_new_old is_dict_new_fresh list_all_is_dict_new

lemmas elems_simps = elems_put elems_patch elems_assign_all elems_new_old

lemmas field_simps = field_put_other field_put_other_key field_put_same field_patch
  field_assign_all_other field_new_old field_new_fresh map_of_dict_at

subsection \<open>The statements, on a store whose shape is known\<close>

lemma bind_apply: "bind m f h = (case m h of (Inl e, h') \<Rightarrow> (Inl e, h') | (Inr x, h') \<Rightarrow> f x h')"
  by (simp add: bind_def)

lemma ret_apply: "ret x h = (Inr x, h)"
  by (simp add: ret_def)

lemma block_apply:
  "block [] h = (Inr (), h)"
  "block (s # ss) h = (case s h of (Inl e, h') \<Rightarrow> (Inl e, h') | (Inr u, h') \<Rightarrow> block ss h')"
  by (simp_all add: ret_def bind_def)

lemma alloc_new: "alloc ob h = (Inr (VRef (length h)), new h ob)"
  by (simp add: alloc_def new_def)

lemma copy_new:
  "is_dict h t \<Longrightarrow> copy (VRef t) h = (Inr (VRef (length h)), new h (ODict (dict_at h t)))"
  by (simp add: copy_def dict_at_def is_dict_def alloc_def new_def split: option.splits obj.splits)

lemma format_arg_str: "format_arg (VStr s) h = (Inr s, h)"
  by (simp add: format_arg_def ret_def)

lemma getitem_key:
  "is_dict h a \<Longrightarrow>
   getitem (VRef a) (Key k) h = (case field h a k of None \<Rightarrow> (Inl KeyError, h) | Some x \<Rightarrow> (Inr x, h))"
  by (auto simp: getitem_def is_dict_def field_def split: option.splits obj.splits)

lemma getitem_index:
  "elems h a \<noteq> None \<Longrightarrow>
   getitem (VRef a) (Index i) h =
     (case py_index (the (elems h a)) i of None \<Rightarrow> (Inl IndexError, h) | Some x \<Rightarrow> (Inr x, h))"
  by (auto simp: getitem_def elems_def split: option.splits obj.splits)

lemma setitem_put: "is_dict h a \<Longrightarrow> setitem (VRef a) k x h = (Inr (), put h a k x)"
  by (auto simp: setitem_def is_dict_def put_def split: option.splits obj.splits)

lemma contains_keys: "is_dict h p \<Longrightarrow> contains (VRef p) k h = (Inr (k \<in> set (keys h p)), h)"
  by (auto simp: contains_def is_dict_def keys_def split: option.splits obj.splits)

lemma iter_values_list:
  "elems h a \<noteq> None \<Longrightarrow> iter_values (VRef a) h = (Inr (the (elems h a)), h)"
  by (auto simp: iter_values_def elems_def split: option.splits obj.splits)

lemma get_path_apply:
  "get_path v [] h = (Inr v, h)"
  "get_path v (s # ss) h =
     (case getitem v s h of (Inl e, h') \<Rightarrow> (Inl e, h') | (Inr w, h') \<Rightarrow> get_path w ss h')"
  by (simp_all add: ret_def bind_def)

lemma set_path_apply:
  "set_path v ss k x h =
     (case get_path v ss h of (Inl e, h') \<Rightarrow> (Inl e, h') | (Inr w, h') \<Rightarrow> setitem w k x h')"
  by (simp add: set_path_def bind_def)

lemma replace_apply:
  "replace_sagemaker_job_name env config job_name h =
     (case getitem config (Key ''HyperParameters'') h of
        (Inl e, h') \<Rightarrow> (Inl e, h')
      | (Inr hp, h') \<Rightarrow> replace_at env config hp job_name h')"
  by (simp only: replace_sagemaker_job_name_def replace_at_def bind_def)

lemma replace_at_dict:
  "is_dict h c \<Longrightarrow> field h c ''HyperParameters'' = Some (VRef p) \<Longrightarrow> is_dict h p \<Longrightarrow>
   replace_at env (VRef c) (VRef p) (VStr s) h = (Inr (), patch env s h p)"
  by (simp add: replace_at_def bind_def contains_keys format_arg_def ret_def getitem_key
      setitem_put patch_def)

lemma for_each_assign_all:
  "list_all (is_dict h) as \<Longrightarrow>
   for_each (map VRef as) (\<lambda>v. setitem v k x) h = (Inr (), assign_all as k x h)"
proof (induction as arbitrary: h)
  case Nil
  then show ?case by (simp add: ret_def)
next
  case (Cons a as)
  from Cons.prems have "list_all (is_dict (put h a k x)) as"
    by (simp add: is_dict_put_fun)
  then have "for_each (map VRef as) (\<lambda>v. setitem v k x) (put h a k x)
             = (Inr (), assign_all as k x (put h a k x))"
    by (rule Cons.IH)
  with Cons.prems show ?case by (simp add: bind_def setitem_put)
qed

lemmas run_simps = bind_apply ret_apply block_apply alloc_new copy_new format_arg_str getitem_key
  getitem_index setitem_put iter_values_list get_path_apply set_path_apply replace_apply
  replace_at_dict for_each_assign_all step_def Let_def

subsection \<open>What a complete template provides\<close>

lemma wf_facts:
  assumes wf: "well_formed env h self hyperparameters L"
  shows "input_template self = VRef (at_template L)"
    "field h (at_template L) (StepId_value env TrainPreprocessor) = Some (VRef (at_train_preprocessor L))"
    "field h (at_template L) (StepId_value env CreatePreprocessorModel) = Some (VRef (at_create_preprocessor_model L))"
    "field h (at_template L) (StepId_value env TransformInput) = Some (VRef (at_transform_input L))"
    "field h (at_template L) (StepId_value env Train) = Some (VRef (at_train L))"
    "field h (at_template L) (StepId_value env CreatePipelineModel) = Some (VRef (at_create_pipeline_model L))"
    "field h (at_template L) (StepId_value env ConfigureEndpoint) = Some (VRef (at_configure_endpoint L))"
    "field h (at_template L) (StepId_value env Deploy) = Some (VRef (at_deploy L))"
    "field h (at_train_preprocessor L) ''OutputDataConfig'' = Some (VRef (at_preprocessor_output L))"
    "field h (at_train_preprocessor L) ''DebugHookConfig'' = Some (VRef (at_preprocessor_debug L))"
    "field h (at_train_preprocessor L) ''HyperParameters'' = Some (VRef (at_preprocessor_hyper L))"
    "field h (at_create_preprocessor_model L) ''PrimaryContainer'' = Some (VRef (at_primary_container L))"
    "field h (at_transform_input L) ''TransformOutput'' = Some (VRef (at_transform_output L))"
    "field h (at_train L) ''OutputDataConfig'' = Some (VRef (at_train_output L))"
    "field h (at_train L) ''DebugHookConfig'' = Some (VRef (at_train_debug L))"
    "field h (at_create_pipeline_model L) ''Containers'' = Some (VRef (at_containers L))"
    "field h (at_configure_endpoint L) ''ProductionVariants'' = Some (VRef (at_production_variants L))"
    "elems h (at_production_variants L) = Some (map VRef (at_variants L))"
    "list_all (is_dict h) (at_variants L)"
    "elems h (at_containers L) \<noteq> None"
    "py_index (the (elems h (at_containers L))) 0 = Some (VRef (at_container0 L))"
    "py_index (the (elems h (at_containers L))) 1 = Some (VRef (at_container1 L))"
  using wf by (auto simp: well_formed_def split: option.splits)

lemma wf_dicts:
  assumes wf: "well_formed env h self hyperparameters L"
  shows "is_dict h (at_template L)" "is_dict h (at_train_preprocessor L)"
    "is_dict h (at_preprocessor_output L)" "is_dict h (at_preprocessor_debug L)"
    "is_dict h (at_preprocessor_hyper L)" "is_dict h (at_create_preprocessor_model L)"
    "is_dict h (at_primary_container L)" "is_dict h (at_transform_input L)"
    "is_dict h (at_transform_output L)" "is_dict h (at_train L)"
    "is_dict h (at_train_output L)" "is_dict h (at_train_debug L)"
    "is_dict h (at_train_hyper L)" "is_dict h (at_create_pipeline_model L)"
    "is_dict h (at_container0 L)" "is_dict h (at_container1 L)"
    "is_dict h (at_configure_endpoint L)" "is_dict h (at_deploy L)"
  using wf by (auto simp: well_formed_def dest: field_is_dict)

lemma wf_distinct:
  assumes wf: "well_formed env h self hyperparameters L"
  shows "distinct (skeleton L)" "distinct (rev (skeleton L))"
     "at_preprocessor_hyper L \<notin> set (skeleton L)"
     "at_train_hyper L \<notin> set (skeleton L)"
     "list_all (\<lambda>a. a \<noteq> at_preprocessor_hyper L) (skeleton L)"
     "list_all (\<lambda>a. a \<noteq> at_train_hyper L) (skeleton L)"
  using wf by (auto simp: well_formed_def list_all_iff)

lemma list_all_fresh_add: "list_all (is_dict h) as \<Longrightarrow> length h + n \<notin> set as"
  using is_dict_less [of h "length h + n"] by (auto simp: list_all_iff)

lemma is_dict_fresh_add: "is_dict h a \<Longrightarrow> a \<noteq> length h + n" "is_dict h a \<Longrightarrow> length h + n \<noteq> a"
  using is_dict_less [of h a] by auto

lemma field_patch_gen:
  "field (patch env s h p) a k =
     (if a = p \<and> k = JOB_NAME_PARAM_NAME env \<and> JOB_NAME_PARAM_NAME env \<in> set (keys h p)
           \<and> is_dict h p
      then Some (VStr (''\"'' @ s @ ''\"'')) else field h a k)"
  by (simp add: patch_def field_put)

lemmas execute_folded = execute_def [folded job_name_of_def]

lemma is_dict_fresh_Suc:
  "is_dict h a \<Longrightarrow> a \<noteq> Suc (length h)" "is_dict h a \<Longrightarrow> Suc (length h) \<noteq> a"
  "is_dict h a \<Longrightarrow> a \<noteq> Suc (Suc (length h))" "is_dict h a \<Longrightarrow> Suc (Suc (length h)) \<noteq> a"
  using is_dict_less [of h a] by auto

lemma list_all_fresh_Suc:
  "list_all (is_dict h) as \<Longrightarrow> Suc (length h) \<notin> set as"
  "list_all (is_dict h) as \<Longrightarrow> Suc (Suc (length h)) \<notin> set as"
  using list_all_fresh_add [of h as 1] list_all_fresh_add [of h as 2] by simp_all

lemma wf_variant:
  assumes wf: "well_formed env h self hyperparameters L" and a: "a \<in> set (at_variants L)"
  shows "is_dict h a"
    "a \<noteq> at_template L" "a \<noteq> at_train_preprocessor L" "a \<noteq> at_preprocessor_output L"
    "a \<noteq> at_preprocessor_debug L" "a \<noteq> at_create_preprocessor_model L"
    "a \<noteq> at_primary_container L" "a \<noteq> at_transform_input L" "a \<noteq> at_transform_output L"
    "a \<noteq> at_train L" "a \<noteq> at_train_output L" "a \<noteq> at_train_debug L"
    "a \<noteq> at_create_pipeline_model L" "a \<noteq> at_containers L" "a \<noteq> at_container0 L"
    "a \<noteq> at_container1 L" "a \<noteq> at_configure_endpoint L" "a \<noteq> at_production_variants L"
    "a \<noteq> at_deploy L" "a \<noteq> at_preprocessor_hyper L" "a \<noteq> at_train_hyper L"
    "a \<noteq> length h"
  using wf a is_dict_less [of h a]
  by (auto simp: well_formed_def skeleton_def list_all_iff)

lemma execute_none:
  assumes wf: "well_formed env h self VNone L"
  shows "\<exists>h'. execute env self jn VNone ts h
           = (Inr \<lparr>request_inputs = VRef (length h), request_name = job_name_of jn ts\<rparr>, h')
         \<and> patched self (job_name_of jn ts) L h h'"
proof -
  note f = wf_facts [OF wf]
  note d = wf_dicts [OF wf]
  note l = d [THEN is_dict_fresh(1)] d [THEN is_dict_fresh(2)] list_all_fresh [OF f(19)]
  note la = d [THEN is_dict_fresh_add(1)] d [THEN is_dict_fresh_add(2)]
    list_all_fresh_add [OF f(19)]
    d [THEN is_dict_fresh_Suc(1)] d [THEN is_dict_fresh_Suc(2)]
    d [THEN is_dict_fresh_Suc(3)] d [THEN is_dict_fresh_Suc(4)]
    list_all_fresh_Suc [OF f(19)]
  note s = wf_distinct [OF wf, unfolded skeleton_def, simplified]
  have hp: "field h (at_train L) ''HyperParameters'' = Some (VRef (at_train_hyper L))"
    using wf by (simp add: well_formed_def)
  show ?thesis
    apply (simp add: execute_folded run_simps field_simps is_dict_simps elems_simps length_simps f d l s hp)
    unfolding patched_def
    apply (intro conjI allI ballI impI)
    apply (simp_all add: field_simps lookup_simps is_dict_simps elems_simps length_simps f d l s hp)
    subgoal for a k
      using wf_variant [OF wf, of a]
      by (simp add: field_simps field_assign_all is_dict_simps length_simps f d l)
    subgoal
      by (simp add: elems_new elems_simps length_simps)
    subgoal for k
      by (simp add: field_simps field_new is_dict_simps length_simps la)
    subgoal for k
      by (simp add: field_simps field_new is_dict_simps length_simps la)
    subgoal for k
      by (simp add: field_simps field_new is_dict_simps length_simps la)
    done
qed

lemma execute_some:
  assumes wf: "well_formed env h self (VRef p) L"
  shows "\<exists>h'. execute env self jn (VRef p) ts h
           = (Inr \<lparr>request_inputs = VRef (length h), request_name = job_name_of jn ts\<rparr>, h')
         \<and> patched self (job_name_of jn ts) L h h'"
proof -
  note f = wf_facts [OF wf]
  note d = wf_dicts [OF wf]
  note l = d [THEN is_dict_fresh(1)] d [THEN is_dict_fresh(2)] list_all_fresh [OF f(19)]
  note la = d [THEN is_dict_fresh_add(1)] d [THEN is_dict_fresh_add(2)]
    list_all_fresh_add [OF f(19)]
    d [THEN is_dict_fresh_Suc(1)] d [THEN is_dict_fresh_Suc(2)]
    d [THEN is_dict_fresh_Suc(3)] d [THEN is_dict_fresh_Suc(4)]
    list_all_fresh_Suc [OF f(19)]
  note s = wf_distinct [OF wf, unfolded skeleton_def, simplified]
  have hp: "p = at_train_hyper L"
    using wf by (simp add: well_formed_def)
  show ?thesis
    apply (simp add: execute_folded run_simps field_simps is_dict_simps elems_simps length_simps f d l s hp)
    unfolding patched_def
    apply (intro conjI allI ballI impI)
    apply (simp_all add: field_simps lookup_simps is_dict_simps elems_simps length_simps f d l s hp)
    subgoal for a k
      using wf_variant [OF wf, of a]
      by (simp add: field_simps field_assign_all is_dict_simps length_simps f d l)
    subgoal
      by (simp add: elems_new elems_simps length_simps)
    subgoal for k
      by (simp add: field_simps field_new is_dict_simps length_simps la)
    subgoal for k
      by (simp add: field_simps field_new is_dict_simps length_simps la)
    subgoal for k
      by (simp add: field_simps field_new is_dict_simps length_simps la)
    done
qed

lemma execute_patched:
  assumes wf: "well_formed env h self hyperparameters L"
  shows "\<exists>h'. execute env self jn hyperparameters ts h
           = (Inr \<lparr>request_inputs = VRef (length h), request_name = job_name_of jn ts\<rparr>, h')
         \<and> patched self (job_name_of jn ts) L h h'"
proof (cases hyperparameters)
  case VNone
  with wf show ?thesis by (simp add: execute_none)
next
  case (VRef p)
  with wf show ?thesis by (simp add: execute_some)
next
  case (VStr s)
  with wf show ?thesis by (simp add: well_formed_def)
next
  case (VInt n)
  with wf show ?thesis by (simp add: well_formed_def)
qed

lemma patched_keep: "patched self j L h h' \<Longrightarrow> is_dict h a \<Longrightarrow> is_dict h' a"
  by (simp add: patched_def)

lemma patched_dicts:
  assumes wf: "well_formed env h self hyperparameters L"
    and p: "patched self j L h h'"
  shows "is_dict h' (length h)" 
    "is_dict h' (length h + 1)" "is_dict h' (length h + 2)" "is_dict h' (length h + 3)"
    "list_all (is_dict h') (at_variants L)"
proof -
  note f = wf_facts [OF wf]
  from p have top: "field h' (length h) (StepId_value env Train) = field h (at_template L) (StepId_value env Train)"
    by (simp add: patched_def)
  from p have n1: "field h' (length h + 1) ''S3DataType'' = Some (VStr ''S3Prefix'')"
    and n2: "field h' (length h + 2) ''S3DataSource'' = Some (VRef (length h + 1))"
    and n3: "field h' (length h + 3) ''ChannelName'' = Some (VStr ''train'')"
    by (simp_all add: patched_def)
  show "is_dict h' (length h)" using top f(5) by (auto intro: field_is_dict)
  show "is_dict h' (length h + 1)" using n1 by (rule field_is_dict)
  show "is_dict h' (length h + 2)" using n2 by (rule field_is_dict)
  show "is_dict h' (length h + 3)" using n3 by (rule field_is_dict)
  show "list_all (is_dict h') (at_variants L)"
    using f(19) patched_keep [OF p] by (simp add: list_all_iff)
qed

lemma getitem_field:
  "field h a k = Some v \<Longrightarrow> getitem (VRef a) (Key k) h = (Inr v, h)"
  by (frule field_is_dict) (simp add: getitem_key)

text \<open>What can be read from the inputs of the request once \<^verbatim>\<open>execute\<close> has patched them.\<close>

lemma patched_top:
  assumes wf: "well_formed env h self hyperparameters L"
    and p: "patched self j L h h'"
  shows "getitem (VRef (length h)) (step env TrainPreprocessor) h' = (Inr (VRef (at_train_preprocessor L)), h')"
    "getitem (VRef (length h)) (step env CreatePreprocessorModel) h' = (Inr (VRef (at_create_preprocessor_model L)), h')"
    "getitem (VRef (length h)) (step env TransformInput) h' = (Inr (VRef (at_transform_input L)), h')"
    "getitem (VRef (length h)) (step env Train) h' = (Inr (VRef (at_train L)), h')"
    "getitem (VRef (length h)) (step env CreatePipelineModel) h' = (Inr (VRef (at_create_pipeline_model L)), h')"
    "getitem (VRef (length h)) (step env ConfigureEndpoint) h' = (Inr (VRef (at_configure_endpoint L)), h')"
    "getitem (VRef (length h)) (step env Deploy) h' = (Inr (VRef (at_deploy L)), h')"
proof -
  from p have top: "\<And>k. field h' (length h) k = field h (at_template L) k"
    by (simp add: patched_def)
  show "getitem (VRef (length h)) (step env TrainPreprocessor) h' = (Inr (VRef (at_train_preprocessor L)), h')"
    "getitem (VRef (length h)) (step env CreatePreprocessorModel) h' = (Inr (VRef (at_create_preprocessor_model L)), h')"
    "getitem (VRef (length h)) (step env TransformInput) h' = (Inr (VRef (at_transform_input L)), h')"
    "getitem (VRef (length h)) (step env Train) h' = (Inr (VRef (at_train L)), h')"
    "getitem (VRef (length h)) (step env CreatePipelineModel) h' = (Inr (VRef (at_create_pipeline_model L)), h')"
    "getitem (VRef (length h)) (step env ConfigureEndpoint) h' = (Inr (VRef (at_configure_endpoint L)), h')"
    "getitem (VRef (length h)) (step env Deploy) h' = (Inr (VRef (at_deploy L)), h')"
    unfolding step_def
    by (rule getitem_field, simp add: top wf_facts [OF wf])+
qed

lemma patched_template:
  assumes wf: "well_formed env h self hyperparameters L"
    and p: "patched self j L h h'"
  shows "getitem (VRef (at_template L)) (step env i) h' = getitem (VRef (length h)) (step env i) h'"
proof -
  from p have "\<And>k. field h' (length h) k = field h' (at_template L) k"
    by (simp add: patched_def)
  moreover have "is_dict h' (length h)" "is_dict h' (at_template L)"
    using patched_dicts [OF wf p] wf_dicts [OF wf, THEN patched_keep [OF p]] by simp_all
  ultimately show ?thesis
    by (simp add: step_def getitem_key)
qed

lemma patched_fields:
  assumes wf: "well_formed env h self hyperparameters L"
    and p: "patched self j L h h'"
  shows
    "field h' (at_train_preprocessor L) ''TrainingJobName'' = Some (VStr (''preprocessor-'' @ j))"
    "field h' (at_train_preprocessor L) ''OutputDataConfig'' = Some (VRef (at_preprocessor_output L))"
    "field h' (at_train_preprocessor L) ''DebugHookConfig'' = Some (VRef (at_preprocessor_debug L))"
    "field h' (at_preprocessor_output L) ''S3OutputPath''
       = Some (VStr (format_models (s3_bucket self) (workflow_name self)))"
    "field h' (at_preprocessor_debug L) ''S3OutputPath''
       = Some (VStr (format_debug (s3_bucket self) (workflow_name self)))"
    "field h' (at_create_preprocessor_model L) ''ModelName'' = Some (VStr (''preprocessor-'' @ j))"
    "field h' (at_create_preprocessor_model L) ''PrimaryContainer'' = Some (VRef (at_primary_container L))"
    "field h' (at_primary_container L) ''ModelDataUrl''
       = Some (VStr (format_model_data (format_models (s3_bucket self) (workflow_name self))
                       (''preprocessor-'' @ j)))"
    "field h' (at_transform_input L) ''ModelName'' = Some (VStr (''preprocessor-'' @ j))"
    "field h' (at_transform_input L) ''TransformJobName'' = Some (VStr (''preprocessor-'' @ j))"
    "field h' (at_transform_input L) ''TransformOutput'' = Some (VRef (at_transform_output L))"
    "field h' (at_transform_output L) ''S3OutputPath''
       = Some (VStr (format_transform (s3_bucket self) (workflow_name self)
                       (''preprocessor-transform-'' @ j)))"
    "field h' (at_train L) ''TrainingJobName'' = Some (VStr (''estimator-'' @ j))"
    "field h' (at_train L) ''InputDataConfig'' = Some (VRef (length h + 4))"
    "field h' (at_train L) ''HyperParameters'' = Some (VRef (at_train_hyper L))"
    "field h' (at_train L) ''OutputDataConfig'' = Some (VRef (at_train_output L))"
    "field h' (at_train L) ''DebugHookConfig'' = Some (VRef (at_train_debug L))"
    "field h' (at_train_output L) ''S3OutputPath''
       = Some (VStr (format_models (s3_bucket self) (workflow_name self)))"
    "field h' (at_train_debug L) ''S3OutputPath''
       = Some (VStr (format_debug (s3_bucket self) (workflow_name self)))"
    "field h' (at_create_pipeline_model L) ''ModelName'' = Some (VStr j)"
    "field h' (at_create_pipeline_model L) ''Containers'' = Some (VRef (at_containers L))"
    "field h' (at_container0 L) ''ModelDataUrl''
       = Some (VStr (format_model_data (format_models (s3_bucket self) (workflow_name self))
                       (''preprocessor-'' @ j)))"
    "field h' (at_container1 L) ''ModelDataUrl''
       = Some (VStr (format_model_data (format_models (s3_bucket self) (workflow_name self))
                       (''estimator-'' @ j)))"
    "field h' (at_configure_endpoint L) ''EndpointConfigName'' = Some (VStr j)"
    "field h' (at_configure_endpoint L) ''ProductionVariants'' = Some (VRef (at_production_variants L))"
    "field h' (at_deploy L) ''EndpointConfigName'' = Some (VStr j)"
    "field h' (at_deploy L) ''EndpointName'' = Some (VStr j)"
    "elems h' (at_containers L) = elems h (at_containers L)"
    "elems h' (at_production_variants L) = Some (map VRef (at_variants L))"
    "elems h' (length h + 4) = Some [VRef (length h + 3)]"
    "field h' (length h + 3) ''ChannelName'' = Some (VStr ''train'')"
    "field h' (length h + 3) ''DataSource'' = Some (VRef (length h + 2))"
    "field h' (length h + 2) ''S3DataSource'' = Some (VRef (length h + 1))"
    "field h' (length h + 1) ''S3Uri''
       = Some (VStr (format_transform (s3_bucket self) (workflow_name self)
                       (''preprocessor-transform-'' @ j)))"
  using p wf_facts [OF wf] by (simp_all add: patched_def)

lemma patched_well_formed:
  assumes wf: "well_formed env h self hyperparameters L"
    and p: "patched self j L h h'"
  shows "well_formed env h' self VNone L"
proof -
  note f = wf_facts [OF wf]
  note fl = patched_fields [OF wf p]
  note d = wf_dicts [OF wf, THEN patched_keep [OF p]]
  note dn = patched_dicts [OF wf p]
  from p have top: "\<And>k. field h' (at_template L) k = field h (at_template L) k"
    by (simp add: patched_def)
  from p have tp: "field h' (at_train_preprocessor L) ''HyperParameters''
      = field h (at_train_preprocessor L) ''HyperParameters''"
    by (simp add: patched_def)
  have cs: "(case elems h' (at_containers L) of
        None \<Rightarrow> False
      | Some xs \<Rightarrow> py_index xs 0 = Some (VRef (at_container0 L)) \<and>
                  py_index xs 1 = Some (VRef (at_container1 L)))"
    using wf by (simp add: fl well_formed_def)
  have cs0: "(case elems h (at_containers L) of
        None \<Rightarrow> False
      | Some xs \<Rightarrow> py_index xs 0 = Some (VRef (at_container0 L)) \<and>
                  py_index xs 1 = Some (VRef (at_container1 L)))"
    using wf by (simp add: well_formed_def)
  have di: "distinct (skeleton L)" "at_preprocessor_hyper L \<notin> set (skeleton L)"
    "at_train_hyper L \<notin> set (skeleton L)"
    using wf by (simp_all add: well_formed_def)
  show ?thesis
    unfolding well_formed_def
    by (intro conjI) (simp_all add: f fl d dn top tp cs0 di)
qed

lemmas read_simps = bind_apply ret_apply get_path_apply getitem_key getitem_index iter_values_list

text \<open>
  C1, as amended: \<^verbatim>\<open>execute(job_name, hyperparameters)\<close> with a string \<open>job_name\<close>, on
  a complete template, calls \<^verbatim>\<open>workflow.execute\<close> under the name \<open>job_name\<close> with
  inputs in which \<^verbatim>\<open>TrainPreprocessor.TrainingJobName\<close> is \<open>'preprocessor-' + job_name\<close>,
  \<^verbatim>\<open>Train.TrainingJobName\<close> is \<open>'estimator-' + job_name\<close> and, when hyperparameters are
  given, \<^verbatim>\<open>Train.HyperParameters\<close> is the given dictionary.
\<close>

theorem execute_patches_run_parameters:
  assumes wf: "well_formed env h self hyperparameters L"
  shows "\<exists>inputs h'.
     execute env self (Some job_name) hyperparameters timestamp h
       = (Inr \<lparr>request_inputs = inputs, request_name = job_name\<rparr>, h') \<and>
     get_path inputs [step env TrainPreprocessor, Key ''TrainingJobName''] h'
       = (Inr (VStr (''preprocessor-'' @ job_name)), h') \<and>
     get_path inputs [step env Train, Key ''TrainingJobName''] h'
       = (Inr (VStr (''estimator-'' @ job_name)), h') \<and>
     (hyperparameters \<noteq> VNone \<longrightarrow>
        get_path inputs [step env Train, Key ''HyperParameters''] h'
          = (Inr hyperparameters, h'))"
proof -
  from execute_patched [OF wf, of "Some job_name" timestamp]
  obtain h' where run: "execute env self (Some job_name) hyperparameters timestamp h
       = (Inr \<lparr>request_inputs = VRef (length h), request_name = job_name\<rparr>, h')"
    and p: "patched self job_name L h h'"
    by (auto simp: job_name_of_def)
  note t = patched_top [OF wf p]
  note fl = patched_fields [OF wf p]
  note d = wf_dicts [OF wf, THEN patched_keep [OF p]]
  have given: "hyperparameters \<noteq> VNone \<Longrightarrow> hyperparameters = VRef (at_train_hyper L)"
    using wf by (simp add: well_formed_def)
  have "get_path (VRef (length h)) [step env TrainPreprocessor, Key ''TrainingJobName''] h'
       = (Inr (VStr (''preprocessor-'' @ job_name)), h')"
    by (simp add: read_simps t fl d)
  moreover have "get_path (VRef (length h)) [step env Train, Key ''TrainingJobName''] h'
       = (Inr (VStr (''estimator-'' @ job_name)), h')"
    by (simp add: read_simps t fl d)
  moreover have "hyperparameters \<noteq> VNone \<longrightarrow>
        get_path (VRef (length h)) [step env Train, Key ''HyperParameters''] h'
          = (Inr hyperparameters, h')"
    using given by (simp add: read_simps t fl d)
  ultimately show ?thesis using run by blast
qed

text \<open>
  C3, as amended: \<^verbatim>\<open>execute\<close> with a string \<open>job_name\<close>, on a complete template,
  returns, and in the inputs it sends the names of dependent steps agree:
  \<^verbatim>\<open>TransformInput\<close>'s \<^verbatim>\<open>ModelName\<close> and \<^verbatim>\<open>TransformJobName\<close>,
  \<^verbatim>\<open>CreatePreprocessorModel\<close>'s \<^verbatim>\<open>ModelName\<close> and \<^verbatim>\<open>TrainPreprocessor\<close>'s
  \<^verbatim>\<open>TrainingJobName\<close> are all \<open>'preprocessor-' + job_name\<close>; \<^verbatim>\<open>CreatePipelineModel\<close>'s
  \<^verbatim>\<open>ModelName\<close>, \<^verbatim>\<open>ConfigureEndpoint\<close>'s \<^verbatim>\<open>EndpointConfigName\<close>, the
  \<^verbatim>\<open>ModelName\<close> of every production variant, and \<^verbatim>\<open>Deploy\<close>'s
  \<^verbatim>\<open>EndpointConfigName\<close> and \<^verbatim>\<open>EndpointName\<close> are all \<open>job_name\<close>.
\<close>

theorem execute_propagates_job_names:
  assumes wf: "well_formed env h self hyperparameters L"
  shows "\<exists>inputs h' production_variants variants.
     execute env self (Some job_name) hyperparameters timestamp h
       = (Inr \<lparr>request_inputs = inputs, request_name = job_name\<rparr>, h') \<and>
     get_path inputs [step env TransformInput, Key ''ModelName''] h'
       = (Inr (VStr (''preprocessor-'' @ job_name)), h') \<and>
     get_path inputs [step env TransformInput, Key ''TransformJobName''] h'
       = (Inr (VStr (''preprocessor-'' @ job_name)), h') \<and>
     get_path inputs [step env CreatePreprocessorModel, Key ''ModelName''] h'
       = (Inr (VStr (''preprocessor-'' @ job_name)), h') \<and>
     get_path inputs [step env TrainPreprocessor, Key ''TrainingJobName''] h'
       = (Inr (VStr (''preprocessor-'' @ job_name)), h') \<and>
     get_path inputs [step env CreatePipelineModel, Key ''ModelName''] h'
       = (Inr (VStr job_name), h') \<and>
     get_path inputs [step env ConfigureEndpoint, Key ''EndpointConfigName''] h'
       = (Inr (VStr job_name), h') \<and>
     get_path inputs [step env ConfigureEndpoint, Key ''ProductionVariants''] h'
       = (Inr production_variants, h') \<and>
     iter_values production_variants h' = (Inr variants, h') \<and>
     (\<forall>variant \<in> set variants.
        getitem variant (Key ''ModelName'') h' = (Inr (VStr job_name), h')) \<and>
     get_path inputs [step env Deploy, Key ''EndpointConfigName''] h'
       = (Inr (VStr job_name), h') \<and>
     get_path inputs [step env Deploy, Key ''EndpointName''] h'
       = (Inr (VStr job_name), h')"
proof -
  from execute_patched [OF wf, of "Some job_name" timestamp]
  obtain h' where run: "execute env self (Some job_name) hyperparameters timestamp h
       = (Inr \<lparr>request_inputs = VRef (length h), request_name = job_name\<rparr>, h')"
    and p: "patched self job_name L h h'"
    by (auto simp: job_name_of_def)
  note t = patched_top [OF wf p]
  note fl = patched_fields [OF wf p]
  note d = wf_dicts [OF wf, THEN patched_keep [OF p]]
  have vs: "\<forall>variant \<in> set (map VRef (at_variants L)).
        getitem variant (Key ''ModelName'') h' = (Inr (VStr job_name), h')"
  proof
    fix variant assume "variant \<in> set (map VRef (at_variants L))"
    then obtain a where a: "a \<in> set (at_variants L)" and v: "variant = VRef a" by auto
    from p a have "field h' a ''ModelName'' = Some (VStr job_name)"
      by (simp add: patched_def)
    then show "getitem variant (Key ''ModelName'') h' = (Inr (VStr job_name), h')"
      unfolding v by (rule getitem_field)
  qed
  have "get_path (VRef (length h)) [step env TransformInput, Key ''ModelName''] h'
       = (Inr (VStr (''preprocessor-'' @ job_name)), h')"
    by (simp add: read_simps t fl d)
  moreover have "get_path (VRef (length h)) [step env TransformInput, Key ''TransformJobName''] h'
       = (Inr (VStr (''preprocessor-'' @ job_name)), h')"
    by (simp add: read_simps t fl d)
  moreover have "get_path (VRef (length h)) [step env CreatePreprocessorModel, Key ''ModelName''] h'
       = (Inr (VStr (''preprocessor-'' @ job_name)), h')"
    by (simp add: read_simps t fl d)
  moreover have "get_path (VRef (length h)) [step env TrainPreprocessor, Key ''TrainingJobName''] h'
       = (Inr (VStr (''preprocessor-'' @ job_name)), h')"
    by (simp add: read_simps t fl d)
  moreover have "get_path (VRef (length h)) [step env CreatePipelineModel, Key ''ModelName''] h'
       = (Inr (VStr job_name), h')"
    by (simp add: read_simps t fl d)
  moreover have "get_path (VRef (length h)) [step env ConfigureEndpoint, Key ''EndpointConfigName''] h'
       = (Inr (VStr job_name), h')"
    by (simp add: read_simps t fl d)
  moreover have "get_path (VRef (length h)) [step env ConfigureEndpoint, Key ''ProductionVariants''] h'
       = (Inr (VRef (at_production_variants L)), h')"
    by (simp add: read_simps t fl d)
  moreover have "iter_values (VRef (at_production_variants L)) h'
       = (Inr (map VRef (at_variants L)), h')"
    by (simp add: read_simps fl)
  moreover have "get_path (VRef (length h)) [step env Deploy, Key ''EndpointConfigName''] h'
       = (Inr (VStr job_name), h')"
    by (simp add: read_simps t fl d)
  moreover have "get_path (VRef (length h)) [step env Deploy, Key ''EndpointName''] h'
       = (Inr (VStr job_name), h')"
    by (simp add: read_simps t fl d)
  ultimately show ?thesis using run vs by blast
qed

text \<open>
  C4, as amended: \<^verbatim>\<open>execute\<close> with a string \<open>job_name\<close>, on a complete template,
  returns, and in the inputs it sends
  \<^verbatim>\<open>CreatePreprocessorModel.PrimaryContainer.ModelDataUrl\<close> is
  \<^verbatim>\<open>s3://{s3_bucket}/{pipeline_name}/models/preprocessor-{job_name}/output/model.tar.gz\<close>,
  \<^verbatim>\<open>TransformInput.TransformOutput.S3OutputPath\<close> is
  \<^verbatim>\<open>s3://{s3_bucket}/{pipeline_name}/preprocessor-transform-{job_name}/transform\<close>, and
  \<^verbatim>\<open>Train.InputDataConfig\<close> is a list of one channel, named \<^verbatim>\<open>train\<close>, whose
  \<^verbatim>\<open>S3Uri\<close> is that output path.
\<close>

theorem execute_derives_s3_uris:
  assumes wf: "well_formed env h self hyperparameters L"
  shows "\<exists>inputs h' channels channel.
     execute env self (Some job_name) hyperparameters timestamp h
       = (Inr \<lparr>request_inputs = inputs, request_name = job_name\<rparr>, h') \<and>
     get_path inputs [step env CreatePreprocessorModel, Key ''PrimaryContainer'',
         Key ''ModelDataUrl''] h'
       = (Inr (VStr (''s3://'' @ s3_bucket self @ ''/'' @ workflow_name self
                    @ ''/models/preprocessor-'' @ job_name @ ''/output/model.tar.gz'')), h') \<and>
     get_path inputs [step env TransformInput, Key ''TransformOutput'', Key ''S3OutputPath''] h'
       = (Inr (VStr (''s3://'' @ s3_bucket self @ ''/'' @ workflow_name self
                    @ ''/preprocessor-transform-'' @ job_name @ ''/transform'')), h') \<and>
     get_path inputs [step env Train, Key ''InputDataConfig''] h' = (Inr channels, h') \<and>
     iter_values channels h' = (Inr ([channel]), h') \<and>
     getitem channel (Key ''ChannelName'') h' = (Inr (VStr ''train''), h') \<and>
     get_path channel [Key ''DataSource'', Key ''S3DataSource'', Key ''S3Uri''] h'
       = (Inr (VStr (''s3://'' @ s3_bucket self @ ''/'' @ workflow_name self
                    @ ''/preprocessor-transform-'' @ job_name @ ''/transform'')), h')"
proof -
  from execute_patched [OF wf, of "Some job_name" timestamp]
  obtain h' where run: "execute env self (Some job_name) hyperparameters timestamp h
       = (Inr \<lparr>request_inputs = VRef (length h), request_name = job_name\<rparr>, h')"
    and p: "patched self job_name L h h'"
    by (auto simp: job_name_of_def)
  note t = patched_top [OF wf p]
  note fl = patched_fields [OF wf p]
  note d = wf_dicts [OF wf, THEN patched_keep [OF p]] patched_dicts [OF wf p]
    patched_dicts(2,3,4) [OF wf p, simplified]
  note fn = patched_fields(30-34) [OF wf p, simplified]
  note fm = format_models_def format_model_data_def format_transform_def
  have "get_path (VRef (length h)) [step env CreatePreprocessorModel, Key ''PrimaryContainer'',
         Key ''ModelDataUrl''] h'
       = (Inr (VStr (''s3://'' @ s3_bucket self @ ''/'' @ workflow_name self
                    @ ''/models/preprocessor-'' @ job_name @ ''/output/model.tar.gz'')), h')"
    by (simp add: read_simps t fl d fm)
  moreover have "get_path (VRef (length h)) [step env TransformInput, Key ''TransformOutput'',
         Key ''S3OutputPath''] h'
       = (Inr (VStr (''s3://'' @ s3_bucket self @ ''/'' @ workflow_name self
                    @ ''/preprocessor-transform-'' @ job_name @ ''/transform'')), h')"
    by (simp add: read_simps t fl d fm)
  moreover have "get_path (VRef (length h)) [step env Train, Key ''InputDataConfig''] h'
       = (Inr (VRef (length h + 4)), h')"
    by (simp add: read_simps t fl d)
  moreover have "iter_values (VRef (length h + 4)) h' = (Inr ([VRef (length h + 3)]), h')"
    by (simp add: read_simps fl fn)
  moreover have "getitem (VRef (length h + 3)) (Key ''ChannelName'') h' = (Inr (VStr ''train''), h')"
    by (simp add: read_simps fl fn d)
  moreover have "get_path (VRef (length h + 3))
         [Key ''DataSource'', Key ''S3DataSource'', Key ''S3Uri''] h'
       = (Inr (VStr (''s3://'' @ s3_bucket self @ ''/'' @ workflow_name self
                    @ ''/preprocessor-transform-'' @ job_name @ ''/transform'')), h')"
    by (simp add: read_simps fl fn d fm)
  ultimately show ?thesis using run by blast
qed

text \<open>
  C5, as amended: every call of \<^verbatim>\<open>execute\<close> on a complete template returns, and in
  the inputs it sends both training steps have
  \<^verbatim>\<open>OutputDataConfig.S3OutputPath\<close> equal to \<^verbatim>\<open>s3://{s3_bucket}/{pipeline_name}/models\<close>
  and \<^verbatim>\<open>DebugHookConfig.S3OutputPath\<close> equal to
  \<^verbatim>\<open>s3://{s3_bucket}/{pipeline_name}/models/debug\<close>.
\<close>

theorem execute_sets_training_output_paths:
  assumes wf: "well_formed env h self hyperparameters L"
  shows "\<exists>request h'.
     execute env self job_name hyperparameters timestamp h = (Inr request, h') \<and>
     (\<forall>i \<in> {TrainPreprocessor, Train}.
        get_path (request_inputs request) [step env i, Key ''OutputDataConfig'',
            Key ''S3OutputPath''] h'
          = (Inr (VStr (''s3://'' @ s3_bucket self @ ''/'' @ workflow_name self @ ''/models'')), h') \<and>
        get_path (request_inputs request) [step env i, Key ''DebugHookConfig'',
            Key ''S3OutputPath''] h'
          = (Inr (VStr (''s3://'' @ s3_bucket self @ ''/'' @ workflow_name self
                       @ ''/models/debug'')), h'))"
proof -
  from execute_patched [OF wf, of job_name timestamp]
  obtain h' where run: "execute env self job_name hyperparameters timestamp h
       = (Inr \<lparr>request_inputs = VRef (length h),
                request_name = job_name_of job_name timestamp\<rparr>, h')"
    and p: "patched self (job_name_of job_name timestamp) L h h'"
    by auto
  note t = patched_top [OF wf p]
  note fl = patched_fields [OF wf p]
  note d = wf_dicts [OF wf, THEN patched_keep [OF p]]
  note fm = format_models_def format_debug_def
  have "\<forall>i \<in> {TrainPreprocessor, Train}.
        get_path (VRef (length h)) [step env i, Key ''OutputDataConfig'',
            Key ''S3OutputPath''] h'
          = (Inr (VStr (''s3://'' @ s3_bucket self @ ''/'' @ workflow_name self @ ''/models'')), h') \<and>
        get_path (VRef (length h)) [step env i, Key ''DebugHookConfig'',
            Key ''S3OutputPath''] h'
          = (Inr (VStr (''s3://'' @ s3_bucket self @ ''/'' @ workflow_name self
                       @ ''/models/debug'')), h')"
    by (simp add: read_simps t fl d fm)
  with run show ?thesis by auto
qed

text \<open>
  C6, as amended: \<^verbatim>\<open>execute\<close> with a string \<open>job_name\<close>, on a complete template,
  returns, and in the inputs it sends the first container of
  \<^verbatim>\<open>CreatePipelineModel\<close> has the \<^verbatim>\<open>ModelDataUrl\<close> of
  \<^verbatim>\<open>CreatePreprocessorModel.PrimaryContainer\<close>, and the second has
  \<^verbatim>\<open>{Train OutputDataConfig S3OutputPath}/{Train TrainingJobName}/output/model.tar.gz\<close>, which
  is \<^verbatim>\<open>s3://{s3_bucket}/{pipeline_name}/models/estimator-{job_name}/output/model.tar.gz\<close>.
\<close>

theorem execute_configures_pipeline_model:
  assumes wf: "well_formed env h self hyperparameters L"
  shows "\<exists>inputs h' url path name.
     execute env self (Some job_name) hyperparameters timestamp h
       = (Inr \<lparr>request_inputs = inputs, request_name = job_name\<rparr>, h') \<and>
     get_path inputs [step env CreatePreprocessorModel, Key ''PrimaryContainer'',
         Key ''ModelDataUrl''] h' = (Inr url, h') \<and>
     get_path inputs [step env CreatePipelineModel, Key ''Containers'', Index 0,
         Key ''ModelDataUrl''] h' = (Inr url, h') \<and>
     get_path inputs [step env Train, Key ''OutputDataConfig'', Key ''S3OutputPath''] h'
       = (Inr (VStr path), h') \<and>
     get_path inputs [step env Train, Key ''TrainingJobName''] h' = (Inr (VStr name), h') \<and>
     get_path inputs [step env CreatePipelineModel, Key ''Containers'', Index 1,
         Key ''ModelDataUrl''] h'
       = (Inr (VStr (path @ ''/'' @ name @ ''/output/model.tar.gz'')), h') \<and>
     path @ ''/'' @ name @ ''/output/model.tar.gz''
       = ''s3://'' @ s3_bucket self @ ''/'' @ workflow_name self @ ''/models/estimator-''
         @ job_name @ ''/output/model.tar.gz''"
proof -
  from execute_patched [OF wf, of "Some job_name" timestamp]
  obtain h' where run: "execute env self (Some job_name) hyperparameters timestamp h
       = (Inr \<lparr>request_inputs = VRef (length h), request_name = job_name\<rparr>, h')"
    and p: "patched self job_name L h h'"
    by (auto simp: job_name_of_def)
  note t = patched_top [OF wf p]
  note fl = patched_fields [OF wf p]
  note d = wf_dicts [OF wf, THEN patched_keep [OF p]]
  note f = wf_facts [OF wf]
  note fm = format_models_def format_model_data_def
  let ?url = "VStr (format_model_data (format_models (s3_bucket self) (workflow_name self))
                 (''preprocessor-'' @ job_name))"
  let ?path = "format_models (s3_bucket self) (workflow_name self)"
  let ?name = "''estimator-'' @ job_name"
  have "get_path (VRef (length h)) [step env CreatePreprocessorModel, Key ''PrimaryContainer'',
         Key ''ModelDataUrl''] h' = (Inr (?url), h')"
    by (simp add: read_simps t fl d)
  moreover have "get_path (VRef (length h)) [step env CreatePipelineModel, Key ''Containers'',
         Index 0, Key ''ModelDataUrl''] h' = (Inr (?url), h')"
    by (simp add: read_simps t fl d f)
  moreover have "get_path (VRef (length h)) [step env Train, Key ''OutputDataConfig'',
         Key ''S3OutputPath''] h' = (Inr (VStr ?path), h')"
    by (simp add: read_simps t fl d)
  moreover have "get_path (VRef (length h)) [step env Train, Key ''TrainingJobName''] h'
       = (Inr (VStr ?name), h')"
    by (simp add: read_simps t fl d)
  moreover have "get_path (VRef (length h)) [step env CreatePipelineModel, Key ''Containers'',
         Index 1, Key ''ModelDataUrl''] h'
       = (Inr (VStr (?path @ ''/'' @ ?name @ ''/output/model.tar.gz'')), h')"
    by (simp add: read_simps t fl d f format_model_data_def)
  moreover have "?path @ ''/'' @ ?name @ ''/output/model.tar.gz''
       = ''s3://'' @ s3_bucket self @ ''/'' @ workflow_name self @ ''/models/estimator-''
         @ job_name @ ''/output/model.tar.gz''"
    by (simp add: fm)
  ultimately show ?thesis using run by blast
qed

lemma example_well_formed:
  "well_formed example_env example_store example_pipeline (VRef 21) example_layout"
  by (simp add: well_formed_def example_env_def example_store_def example_pipeline_def
      example_layout_def skeleton_def field_def is_dict_def elems_def lookup_def py_index_def)

theorem execute_patches_run_parameters_witness:
  "well_formed example_env example_store example_pipeline (VRef 21) example_layout \<and>
   (\<exists>inputs h'.
     execute example_env example_pipeline (Some ''job'') (VRef 21) ''ts'' example_store
       = (Inr \<lparr>request_inputs = inputs, request_name = ''job''\<rparr>, h') \<and>
     get_path inputs [step example_env TrainPreprocessor, Key ''TrainingJobName''] h'
       = (Inr (VStr (''preprocessor-'' @ ''job'')), h') \<and>
     get_path inputs [step example_env Train, Key ''TrainingJobName''] h'
       = (Inr (VStr (''estimator-'' @ ''job'')), h') \<and>
     get_path inputs [step example_env Train, Key ''HyperParameters''] h'
       = (Inr (VRef 21), h'))"
proof -
  have given: "VRef 21 \<noteq> VNone" by simp
  from execute_patches_run_parameters [OF example_well_formed, of "''job''" "''ts''"]
  obtain inputs h' where
    "execute example_env example_pipeline (Some ''job'') (VRef 21) ''ts'' example_store
       = (Inr \<lparr>request_inputs = inputs, request_name = ''job''\<rparr>, h')"
    "get_path inputs [step example_env TrainPreprocessor, Key ''TrainingJobName''] h'
       = (Inr (VStr (''preprocessor-'' @ ''job'')), h')"
    "get_path inputs [step example_env Train, Key ''TrainingJobName''] h'
       = (Inr (VStr (''estimator-'' @ ''job'')), h')"
    "VRef 21 \<noteq> VNone \<longrightarrow>
       get_path inputs [step example_env Train, Key ''HyperParameters''] h'
         = (Inr (VRef 21), h')"
    by (elim exE conjE)
  with given example_well_formed show ?thesis
    by (intro conjI exI) (assumption | erule (1) mp)+
qed

theorem execute_propagates_job_names_witness:
  "well_formed example_env example_store example_pipeline (VRef 21) example_layout \<and>
   (\<exists>inputs h' production_variants variants.
     execute example_env example_pipeline (Some ''job'') (VRef 21) ''ts'' example_store
       = (Inr \<lparr>request_inputs = inputs, request_name = ''job''\<rparr>, h') \<and>
     get_path inputs [step example_env TransformInput, Key ''ModelName''] h'
       = (Inr (VStr (''preprocessor-'' @ ''job'')), h') \<and>
     get_path inputs [step example_env TransformInput, Key ''TransformJobName''] h'
       = (Inr (VStr (''preprocessor-'' @ ''job'')), h') \<and>
     get_path inputs [step example_env CreatePreprocessorModel, Key ''ModelName''] h'
       = (Inr (VStr (''preprocessor-'' @ ''job'')), h') \<and>
     get_path inputs [step example_env TrainPreprocessor, Key ''TrainingJobName''] h'
       = (Inr (VStr (''preprocessor-'' @ ''job'')), h') \<and>
     get_path inputs [step example_env CreatePipelineModel, Key ''ModelName''] h'
       = (Inr (VStr ''job''), h') \<and>
     get_path inputs [step example_env ConfigureEndpoint, Key ''EndpointConfigName''] h'
       = (Inr (VStr ''job''), h') \<and>
     get_path inputs [step example_env ConfigureEndpoint, Key ''ProductionVariants''] h'
       = (Inr production_variants, h') \<and>
     iter_values production_variants h' = (Inr variants, h') \<and>
     (\<forall>variant \<in> set variants.
        getitem variant (Key ''ModelName'') h' = (Inr (VStr ''job''), h')) \<and>
     get_path inputs [step example_env Deploy, Key ''EndpointConfigName''] h'
       = (Inr (VStr ''job''), h') \<and>
     get_path inputs [step example_env Deploy, Key ''EndpointName''] h'
       = (Inr (VStr ''job''), h'))"
  using example_well_formed
    execute_propagates_job_names [OF example_well_formed, of "''job''" "''ts''"]
  by (intro conjI) assumption+

theorem execute_derives_s3_uris_witness:
  "well_formed example_env example_store example_pipeline (VRef 21) example_layout \<and>
   (\<exists>inputs h' channels channel.
     execute example_env example_pipeline (Some ''job'') (VRef 21) ''ts'' example_store
       = (Inr \<lparr>request_inputs = inputs, request_name = ''job''\<rparr>, h') \<and>
     get_path inputs [step example_env CreatePreprocessorModel, Key ''PrimaryContainer'',
         Key ''ModelDataUrl''] h'
       = (Inr (VStr (''s3://'' @ s3_bucket example_pipeline @ ''/''
                    @ workflow_name example_pipeline
                    @ ''/models/preprocessor-'' @ ''job'' @ ''/output/model.tar.gz'')), h') \<and>
     get_path inputs [step example_env TransformInput, Key ''TransformOutput'',
         Key ''S3OutputPath''] h'
       = (Inr (VStr (''s3://'' @ s3_bucket example_pipeline @ ''/''
                    @ workflow_name example_pipeline
                    @ ''/preprocessor-transform-'' @ ''job'' @ ''/transform'')), h') \<and>
     get_path inputs [step example_env Train, Key ''InputDataConfig''] h' = (Inr channels, h') \<and>
     iter_values channels h' = (Inr ([channel]), h') \<and>
     getitem channel (Key ''ChannelName'') h' = (Inr (VStr ''train''), h') \<and>
     get_path channel [Key ''DataSource'', Key ''S3DataSource'', Key ''S3Uri''] h'
       = (Inr (VStr (''s3://'' @ s3_bucket example_pipeline @ ''/''
                    @ workflow_name example_pipeline
                    @ ''/preprocessor-transform-'' @ ''job'' @ ''/transform'')), h'))"
  using example_well_formed
    execute_derives_s3_uris [OF example_well_formed, of "''job''" "''ts''"]
  by (intro conjI) assumption+

theorem execute_sets_training_output_paths_witness:
  "well_formed example_env example_store example_pipeline (VRef 21) example_layout \<and>
   (\<exists>request h'.
     execute example_env example_pipeline None (VRef 21) ''2019-06-01-12-00-00'' example_store
       = (Inr request, h') \<and>
     (\<forall>i \<in> {TrainPreprocessor, Train}.
        get_path (request_inputs request) [step example_env i, Key ''OutputDataConfig'',
            Key ''S3OutputPath''] h'
          = (Inr (VStr (''s3://'' @ s3_bucket example_pipeline @ ''/''
                       @ workflow_name example_pipeline @ ''/models'')), h') \<and>
        get_path (request_inputs request) [step example_env i, Key ''DebugHookConfig'',
            Key ''S3OutputPath''] h'
          = (Inr (VStr (''s3://'' @ s3_bucket example_pipeline @ ''/''
                       @ workflow_name example_pipeline @ ''/models/debug'')), h')))"
  using example_well_formed
    execute_sets_training_output_paths [OF example_well_formed, of None "''2019-06-01-12-00-00''"]
  by (intro conjI) assumption+

theorem execute_configures_pipeline_model_witness:
  "well_formed example_env example_store example_pipeline (VRef 21) example_layout \<and>
   (\<exists>inputs h' url path name.
     execute example_env example_pipeline (Some ''job'') (VRef 21) ''ts'' example_store
       = (Inr \<lparr>request_inputs = inputs, request_name = ''job''\<rparr>, h') \<and>
     get_path inputs [step example_env CreatePreprocessorModel, Key ''PrimaryContainer'',
         Key ''ModelDataUrl''] h' = (Inr url, h') \<and>
     get_path inputs [step example_env CreatePipelineModel, Key ''Containers'', Index 0,
         Key ''ModelDataUrl''] h' = (Inr url, h') \<and>
     get_path inputs [step example_env Train, Key ''OutputDataConfig'', Key ''S3OutputPath''] h'
       = (Inr (VStr path), h') \<and>
     get_path inputs [step example_env Train, Key ''TrainingJobName''] h' = (Inr (VStr name), h') \<and>
     get_path inputs [step example_env CreatePipelineModel, Key ''Containers'', Index 1,
         Key ''ModelDataUrl''] h'
       = (Inr (VStr (path @ ''/'' @ name @ ''/output/model.tar.gz'')), h') \<and>
     path @ ''/'' @ name @ ''/output/model.tar.gz''
       = ''s3://'' @ s3_bucket example_pipeline @ ''/'' @ workflow_name example_pipeline
         @ ''/models/estimator-'' @ ''job'' @ ''/output/model.tar.gz'')"
  using example_well_formed
    execute_configures_pipeline_model [OF example_well_formed, of "''job''" "''ts''"]
  by (intro conjI) assumption+

text \<open>
  C7: \<^verbatim>\<open>replace_sagemaker_job_name(config, job_name)\<close>, for a \<open>config\<close> whose
  \<^verbatim>\<open>'HyperParameters'\<close> entry is a dictionary, returns, and changes the store if and only
  if the key \<^verbatim>\<open>sagemaker.model.JOB_NAME_PARAM_NAME\<close> is in that dictionary: then the entry
  under this key becomes the job name between double quotes, the dictionary keeps its
  keys and every other entry, and no other object changes; when the key is absent the
  store is unchanged.
\<close>

theorem replace_sagemaker_job_name_frame:
  assumes hp: "field h c ''HyperParameters'' = Some (VRef p)"
    and dict: "is_dict h p"
  shows "\<exists>h'. replace_sagemaker_job_name env (VRef c) (VStr job_name) h = (Inr (), h') \<and>
     length h' = length h \<and>
     (\<forall>a. a \<noteq> p \<longrightarrow> lookup h' a = lookup h a) \<and>
     keys h' p = keys h p \<and>
     (\<forall>k. k \<noteq> JOB_NAME_PARAM_NAME env \<longrightarrow> field h' p k = field h p k) \<and>
     (if JOB_NAME_PARAM_NAME env \<in> set (keys h p)
      then field h' p (JOB_NAME_PARAM_NAME env) = Some (VStr (''\"'' @ job_name @ ''\"''))
      else h' = h)"
proof -
  from hp have c: "is_dict h c" by (rule field_is_dict)
  have run: "replace_sagemaker_job_name env (VRef c) (VStr job_name) h
      = (Inr (), patch env job_name h p)"
    using hp c dict by (simp add: replace_apply getitem_key replace_at_dict)
  have "length (patch env job_name h p) = length h"
    by (rule length_patch)
  moreover have "\<forall>a. a \<noteq> p \<longrightarrow> lookup (patch env job_name h p) a = lookup h a"
    by (simp add: lookup_patch_other)
  moreover have "keys (patch env job_name h p) p = keys h p"
    by (simp add: patch_def keys_put)
  moreover have "\<forall>k. k \<noteq> JOB_NAME_PARAM_NAME env \<longrightarrow>
      field (patch env job_name h p) p k = field h p k"
    by (simp add: field_patch_gen)
  moreover have "if JOB_NAME_PARAM_NAME env \<in> set (keys h p)
      then field (patch env job_name h p) p (JOB_NAME_PARAM_NAME env)
             = Some (VStr (''\"'' @ job_name @ ''\"''))
      else patch env job_name h p = h"
    using dict by (simp add: field_patch_gen) (simp add: patch_def)
  ultimately show ?thesis using run by blast
qed

theorem replace_sagemaker_job_name_frame_witness:
  "field example_store 1 ''HyperParameters'' = Some (VRef 4) \<and>
   is_dict example_store 4 \<and>
   (\<exists>h'. replace_sagemaker_job_name example_env (VRef 1) (VStr ''job'') example_store
            = (Inr (), h') \<and>
      length h' = length example_store \<and>
      keys h' 4 = keys example_store 4 \<and>
      field h' 4 ''k'' = field example_store 4 ''k'' \<and>
      lookup h' 12 = lookup example_store 12 \<and>
      field h' 4 ''sagemaker_job_name'' = Some (VStr ''\"job\"''))"
proof -
  have hp: "field example_store 1 ''HyperParameters'' = Some (VRef 4)"
    by (simp add: example_store_def field_def lookup_def)
  have dict: "is_dict example_store 4"
    by (simp add: example_store_def is_dict_def lookup_def)
  have key: "JOB_NAME_PARAM_NAME example_env \<in> set (keys example_store 4)"
    by (simp add: example_store_def example_env_def keys_def lookup_def)
  have name: "JOB_NAME_PARAM_NAME example_env = ''sagemaker_job_name''"
    by (simp add: example_env_def)
  from replace_sagemaker_job_name_frame [OF hp dict, of example_env "''job''"]
  obtain h' where "replace_sagemaker_job_name example_env (VRef 1) (VStr ''job'') example_store
            = (Inr (), h')"
    and "length h' = length example_store"
    and "\<forall>a. a \<noteq> 4 \<longrightarrow> lookup h' a = lookup example_store a"
    and "keys h' 4 = keys example_store 4"
    and "\<forall>k. k \<noteq> JOB_NAME_PARAM_NAME example_env \<longrightarrow> field h' 4 k = field example_store 4 k"
    and "field h' 4 (JOB_NAME_PARAM_NAME example_env) = Some (VStr (''\"'' @ ''job'' @ ''\"''))"
    using key by auto
  then show ?thesis using hp dict by (auto simp: name)
qed

subsection \<open>Closed stores and unreferenced objects\<close>




lemma good_str [simp]: "good t c n (VStr s)"
  by (simp add: good_def)


















subsection \<open>What each statement keeps\<close>


lemma tripleD:
  assumes "triple I n m Q" and "I h" and "n \<le> length h"
  shows "I (snd (m h))" and "length h \<le> length (snd (m h))"
    and "fst (m h) = Inr y \<Longrightarrow> Q (length (snd (m h))) y"
proof -
  obtain r h' where m: "m h = (r, h')" by (cases "m h")
  from assms have *: "I h' \<and> length h \<le> length h' \<and>
      (case r of Inl e \<Rightarrow> True | Inr y \<Rightarrow> Q (length h') y)"
    unfolding triple_def using m by fastforce
  from * m show "I (snd (m h))" and "length h \<le> length (snd (m h))" by simp_all
  from * m show "fst (m h) = Inr y \<Longrightarrow> Q (length (snd (m h))) y" by simp
qed

















subsection \<open>What a call of \<^verbatim>\<open>execute\<close> keeps\<close>

lemma bind_known: "m h = (Inr y, h1) \<Longrightarrow> bind m f h = f y h1"
  by (simp add: bind_def)

lemma triple_bind_ret:
  assumes t: "triple I n m (\<lambda>_ _. True)" and h: "I h" "n \<le> length h"
  shows "I (snd (bind m (\<lambda>_. ret y) h)) \<and>
         (\<forall>r. fst (bind m (\<lambda>_. ret y) h) = Inr r \<longrightarrow> r = y)"
proof -
  note 1 = tripleD(1) [OF t h]
  show ?thesis
  proof (cases "fst (m h)")
    case (Inl e)
    then have "bind m (\<lambda>_. ret y) h = (Inl e, snd (m h))"
      by (cases "m h") (simp add: bind_def)
    with 1 show ?thesis by simp
  next
    case (Inr u)
    then have "bind m (\<lambda>_. ret y) h = (Inr y, snd (m h))"
      by (cases "m h") (simp add: bind_def ret_def)
    with 1 show ?thesis by simp
  qed
qed
















subsection \<open>Reading through the template and through its copy\<close>







subsection \<open>Templates that are not complete\<close>

text \<open>
  C1 as stated fails: on the template without a \<^verbatim>\<open>DebugHookConfig\<close> under the
  \<^verbatim>\<open>Train\<close> step, a call with a string \<open>job_name\<close> raises \<^verbatim>\<open>KeyError\<close>, and no
  execution is started.
\<close>

theorem execute_plain_estimator_not_started:
  "fst (execute example_env example_pipeline (Some ''job'') VNone ''ts''
          example_store_plain_estimator) = Inl KeyError"
  by code_simp

text \<open>
  C3 as stated fails: on the template without a \<^verbatim>\<open>DebugHookConfig\<close> under the
  \<^verbatim>\<open>Train\<close> step the call raises before the statements that name the pipeline model, the endpoint configuration, the production variants and the
  endpoint: the \<^verbatim>\<open>Deploy\<close> step keeps the endpoint name it had, which is not the job name.
\<close>

theorem execute_plain_estimator_names_disagree:
  "fst (execute example_env example_pipeline (Some ''job'') VNone ''ts''
          example_store_plain_estimator) = Inl KeyError \<and>
   field (snd (execute example_env example_pipeline (Some ''job'') VNone ''ts''
                 example_store_plain_estimator)) 20 ''EndpointName'' = Some (VStr ''p'')"
  by code_simp

text \<open>
  C4 as stated fails: on the template without a \<^verbatim>\<open>DebugHookConfig\<close> under the
  \<^verbatim>\<open>TrainPreprocessor\<close> step the call raises before any URI is derived: the primary container keeps the
  \<^verbatim>\<open>ModelDataUrl\<close> it had.
\<close>

theorem execute_plain_preprocessor_no_uri:
  "fst (execute example_env example_pipeline (Some ''job'') VNone ''ts''
          example_store_plain_preprocessor) = Inl KeyError \<and>
   field (snd (execute example_env example_pipeline (Some ''job'') VNone ''ts''
                 example_store_plain_preprocessor)) 6 ''ModelDataUrl''
     = Some (VStr ''s3://x/m'')"
  by code_simp

text \<open>
  C5 as stated fails: on the template without a \<^verbatim>\<open>DebugHookConfig\<close> under the
  \<^verbatim>\<open>Train\<close> step the call raises, and afterwards that step still has no \<^verbatim>\<open>DebugHookConfig\<close>.
\<close>

theorem execute_plain_estimator_no_debug_path:
  "fst (execute example_env example_pipeline None VNone ''ts''
          example_store_plain_estimator) = Inl KeyError \<and>
   field (snd (execute example_env example_pipeline None VNone ''ts''
                 example_store_plain_estimator)) 9 ''DebugHookConfig'' = None"
  by code_simp

text \<open>
  C6 as stated fails: on the template without a \<^verbatim>\<open>DebugHookConfig\<close> under the
  \<^verbatim>\<open>Train\<close> step the call raises before it writes to the containers of the pipeline model: the first keeps the \<^verbatim>\<open>ModelDataUrl\<close> it had, which is not that of the primary
  container of the preprocessor model.
\<close>

theorem execute_plain_estimator_containers_unset:
  "fst (execute example_env example_pipeline (Some ''job'') VNone ''ts''
          example_store_plain_estimator) = Inl KeyError \<and>
   field (snd (execute example_env example_pipeline (Some ''job'') VNone ''ts''
                 example_store_plain_estimator)) 15 ''ModelDataUrl''
     = Some (VStr ''s3://x/m1'') \<and>
   field (snd (execute example_env example_pipeline (Some ''job'') VNone ''ts''
                 example_store_plain_estimator)) 6 ''ModelDataUrl''
     = Some (VStr ''s3://bkt/pipe/models/preprocessor-job/output/model.tar.gz'')"
  by code_simp

text \<open>
  Why a complete template has to be a tree. On the template whose two training steps
  are one dictionary, with one dictionary for its \<^verbatim>\<open>OutputDataConfig\<close>, its
  \<^verbatim>\<open>DebugHookConfig\<close> and the \<^verbatim>\<open>TransformOutput\<close>, and one dictionary for the two
  containers, the call returns, and in the inputs it sends the \<^verbatim>\<open>TrainPreprocessor\<close>
  step has the training job name of the estimator, the \<^verbatim>\<open>OutputDataConfig\<close> of the
  training steps and the \<^verbatim>\<open>TransformOutput\<close> have the path of the debug output, and the
  first container has the model data of the second, not of the primary container.
\<close>

lemma execute_shared_objects:
  "fst (execute example_env example_pipeline (Some ''job'') VNone ''ts'' example_store_shared)
     = Inr \<lparr>request_inputs = VRef 22, request_name = ''job''\<rparr> \<and>
   get_path (VRef 22) [step example_env TrainPreprocessor, Key ''TrainingJobName'']
       (snd (execute example_env example_pipeline (Some ''job'') VNone ''ts''
               example_store_shared))
     = (Inr (VStr ''estimator-job''),
        snd (execute example_env example_pipeline (Some ''job'') VNone ''ts''
               example_store_shared)) \<and>
   get_path (VRef 22) [step example_env Train, Key ''OutputDataConfig'', Key ''S3OutputPath'']
       (snd (execute example_env example_pipeline (Some ''job'') VNone ''ts''
               example_store_shared))
     = (Inr (VStr ''s3://bkt/pipe/models/debug''),
        snd (execute example_env example_pipeline (Some ''job'') VNone ''ts''
               example_store_shared)) \<and>
   get_path (VRef 22) [step example_env TransformInput, Key ''TransformOutput'',
         Key ''S3OutputPath'']
       (snd (execute example_env example_pipeline (Some ''job'') VNone ''ts''
               example_store_shared))
     = (Inr (VStr ''s3://bkt/pipe/models/debug''),
        snd (execute example_env example_pipeline (Some ''job'') VNone ''ts''
               example_store_shared)) \<and>
   get_path (VRef 22) [step example_env CreatePipelineModel, Key ''Containers'', Index 0,
         Key ''ModelDataUrl'']
       (snd (execute example_env example_pipeline (Some ''job'') VNone ''ts''
               example_store_shared))
     = (Inr (VStr ''s3://bkt/pipe/models/debug/estimator-job/output/model.tar.gz''),
        snd (execute example_env example_pipeline (Some ''job'') VNone ''ts''
               example_store_shared)) \<and>
   get_path (VRef 22) [step example_env CreatePreprocessorModel, Key ''PrimaryContainer'',
         Key ''ModelDataUrl'']
       (snd (execute example_env example_pipeline (Some ''job'') VNone ''ts''
               example_store_shared))
     = (Inr (VStr ''s3://bkt/pipe/models/debug/preprocessor-job/output/model.tar.gz''),
        snd (execute example_env example_pipeline (Some ''job'') VNone ''ts''
               example_store_shared))"
  by code_simp

subsection \<open>Construction\<close>

lemma call_apply: "call r h = (case r of Inl e \<Rightarrow> (Inl e, h) | Inr x \<Rightarrow> (Inr x, h))"
  by (simp add: call_def)

lemma bind_Inr:
  "bind m f h = (Inr y, h'') \<longleftrightarrow> (\<exists>x h'. m h = (Inr x, h') \<and> f x h' = (Inr y, h''))"
  by (auto simp: bind_def split: sum.splits prod.splits)

lemma ret_Inr: "ret x h = (Inr y, h') \<longleftrightarrow> y = x \<and> h' = h"
  by (auto simp: ret_def)

lemma call_Inr: "call r h = (Inr x, h') \<longleftrightarrow> r = Inr x \<and> h' = h"
  by (auto simp: call_def split: sum.splits)

lemma new_step_Inr:
  "new_step sdk cls name kwargs h = (Inr s, h') \<longleftrightarrow>
     (\<exists>p. step_parameters sdk cls kwargs = Inr p \<and>
          s = \<lparr>step_class = cls, state_id = name, parameters = p, catches = []\<rparr> \<and> h' = h)"
  by (auto simp: new_step_def bind_Inr call_Inr ret_Inr)

lemma build_workflow_definition_states:
  assumes "build_workflow_definition sdk env self h = (Inr built, h')"
  shows "\<exists>p1 p2 p3 p4 p5 p6 p7. built = Chain
     [\<lparr>step_class = TrainingStep, state_id = StepId_value env TrainPreprocessor,
        parameters = p1, catches = []\<rparr>,
      \<lparr>step_class = ModelStep, state_id = StepId_value env CreatePreprocessorModel,
        parameters = p2, catches = []\<rparr>,
      \<lparr>step_class = TransformStep, state_id = StepId_value env TransformInput,
        parameters = p3, catches = []\<rparr>,
      \<lparr>step_class = TrainingStep, state_id = StepId_value env Train,
        parameters = p4, catches = []\<rparr>,
      \<lparr>step_class = ModelStep, state_id = StepId_value env CreatePipelineModel,
        parameters = p5, catches = []\<rparr>,
      \<lparr>step_class = EndpointConfigStep, state_id = StepId_value env ConfigureEndpoint,
        parameters = p6, catches = []\<rparr>,
      \<lparr>step_class = EndpointStep, state_id = StepId_value env Deploy,
        parameters = p7, catches = []\<rparr>]"
  using assms
  by (auto simp: build_workflow_definition_def Let_def bind_Inr new_step_Inr ret_Inr call_Inr)

lemma init_definition:
  assumes "init sdk env preprocessor' estimator' inputs' s3_bucket' role client
             compression_type' content_type' pipeline_name' timestamp h = (Inr self, h')"
  shows "\<exists>h0. build_workflow_definition sdk env (attributes self) h
              = (Inr (self_definition self), h0)"
    and "workflow_definition self = self_definition self"
  using assms by (auto simp: init_def Let_def bind_Inr ret_Inr)

lemma example_build:
  "\<exists>built h'. build_workflow_definition example_sdk example_env example_attributes
       example_inputs = (Inr built, h')"
  by (simp add: build_workflow_definition_def pipeline_model_config_def new_step_def Let_def
      bind_apply ret_apply call_apply example_sdk_def example_attributes_def example_inputs_def
      getitem_def lookup_def)

lemma example_init:
  "\<exists>self h'. init example_sdk example_env ''pre'' ''est'' (VRef 0) ''bkt'' ''role'' None
       VNone VNone (Some ''pipe'') ''ts'' example_inputs = (Inr self, h')"
  by (simp add: init_def build_workflow_definition_def pipeline_model_config_def new_step_def
      Let_def bind_apply ret_apply call_apply example_sdk_def example_inputs_def
      getitem_def lookup_def alloc_def)

text \<open>
  C2: the chain that \<^verbatim>\<open>build_workflow_definition\<close> returns has exactly seven states,
  in this order: \<^verbatim>\<open>TrainPreprocessor\<close>, \<^verbatim>\<open>CreatePreprocessorModel\<close>, \<^verbatim>\<open>TransformInput\<close>,
  \<^verbatim>\<open>Train\<close>, \<^verbatim>\<open>CreatePipelineModel\<close>, \<^verbatim>\<open>ConfigureEndpoint\<close>, \<^verbatim>\<open>Deploy\<close> (two training
  steps, a transform step, two model steps, an endpoint configuration and an endpoint
  step); \<^verbatim>\<open>__init__\<close> builds it from the attributes it has set, keeps it as
  \<^verbatim>\<open>self.definition\<close> and gives the same chain to the workflow as its definition.
\<close>

theorem build_workflow_definition_seven_states:
  "(build_workflow_definition sdk env self h = (Inr built, h') \<longrightarrow>
      map state_id (states built)
        = map (StepId_value env)
            [TrainPreprocessor, CreatePreprocessorModel, TransformInput, Train,
             CreatePipelineModel, ConfigureEndpoint, Deploy] \<and>
      map step_class (states built)
        = [TrainingStep, ModelStep, TransformStep, TrainingStep, ModelStep,
           EndpointConfigStep, EndpointStep]) \<and>
   (init sdk env preprocessor' estimator' inputs' s3_bucket' role client
        compression_type' content_type' pipeline_name' timestamp h = (Inr pipeline, h'') \<longrightarrow>
      (\<exists>h0. build_workflow_definition sdk env (attributes pipeline) h
              = (Inr (self_definition pipeline), h0)) \<and>
      workflow_definition pipeline = self_definition pipeline)"
proof (intro conjI impI)
  assume "build_workflow_definition sdk env self h = (Inr built, h')"
  from build_workflow_definition_states [OF this]
  obtain p1 p2 p3 p4 p5 p6 p7 where b: "built = Chain
     [\<lparr>step_class = TrainingStep, state_id = StepId_value env TrainPreprocessor,
        parameters = p1, catches = []\<rparr>,
      \<lparr>step_class = ModelStep, state_id = StepId_value env CreatePreprocessorModel,
        parameters = p2, catches = []\<rparr>,
      \<lparr>step_class = TransformStep, state_id = StepId_value env TransformInput,
        parameters = p3, catches = []\<rparr>,
      \<lparr>step_class = TrainingStep, state_id = StepId_value env Train,
        parameters = p4, catches = []\<rparr>,
      \<lparr>step_class = ModelStep, state_id = StepId_value env CreatePipelineModel,
        parameters = p5, catches = []\<rparr>,
      \<lparr>step_class = EndpointConfigStep, state_id = StepId_value env ConfigureEndpoint,
        parameters = p6, catches = []\<rparr>,
      \<lparr>step_class = EndpointStep, state_id = StepId_value env Deploy,
        parameters = p7, catches = []\<rparr>]"
    by blast
  show "map state_id (states built)
        = map (StepId_value env)
            [TrainPreprocessor, CreatePreprocessorModel, TransformInput, Train,
             CreatePipelineModel, ConfigureEndpoint, Deploy]"
    by (simp add: b)
  show "map step_class (states built)
        = [TrainingStep, ModelStep, TransformStep, TrainingStep, ModelStep,
           EndpointConfigStep, EndpointStep]"
    by (simp add: b)
next
  assume i: "init sdk env preprocessor' estimator' inputs' s3_bucket' role client
        compression_type' content_type' pipeline_name' timestamp h = (Inr pipeline, h'')"
  show "\<exists>h0. build_workflow_definition sdk env (attributes pipeline) h
              = (Inr (self_definition pipeline), h0)"
    by (rule init_definition(1) [OF i])
  show "workflow_definition pipeline = self_definition pipeline"
    by (rule init_definition(2) [OF i])
qed

theorem build_workflow_definition_seven_states_witness:
  "\<exists>built h' pipeline h''.
     build_workflow_definition example_sdk example_env example_attributes example_inputs
       = (Inr built, h') \<and>
     map state_id (states built)
       = map (StepId_value example_env)
           [TrainPreprocessor, CreatePreprocessorModel, TransformInput, Train,
            CreatePipelineModel, ConfigureEndpoint, Deploy] \<and>
     map step_class (states built)
       = [TrainingStep, ModelStep, TransformStep, TrainingStep, ModelStep,
          EndpointConfigStep, EndpointStep] \<and>
     init example_sdk example_env ''pre'' ''est'' (VRef 0) ''bkt'' ''role'' None
       VNone VNone (Some ''pipe'') ''ts'' example_inputs = (Inr pipeline, h'') \<and>
     (\<exists>h0. build_workflow_definition example_sdk example_env (attributes pipeline)
             example_inputs = (Inr (self_definition pipeline), h0)) \<and>
     workflow_definition pipeline = self_definition pipeline"
proof -
  from example_build obtain built h' where
    b: "build_workflow_definition example_sdk example_env example_attributes example_inputs
       = (Inr built, h')"
    by blast
  from example_init obtain pipeline h'' where
    i: "init example_sdk example_env ''pre'' ''est'' (VRef 0) ''bkt'' ''role'' None
       VNone VNone (Some ''pipe'') ''ts'' example_inputs = (Inr pipeline, h'')"
    by blast
  note t = build_workflow_definition_seven_states
    [of example_sdk example_env example_attributes example_inputs built h'
        "''pre''" "''est''" "VRef 0" "''bkt''" "''role''" None VNone VNone "Some ''pipe''"
        "''ts''" pipeline h'']
  from t b have
    "map state_id (states built)
       = map (StepId_value example_env)
           [TrainPreprocessor, CreatePreprocessorModel, TransformInput, Train,
            CreatePipelineModel, ConfigureEndpoint, Deploy]"
    "map step_class (states built)
       = [TrainingStep, ModelStep, TransformStep, TrainingStep, ModelStep,
          EndpointConfigStep, EndpointStep]"
    by blast+
  moreover from t i have
    "\<exists>h0. build_workflow_definition example_sdk example_env (attributes pipeline)
             example_inputs = (Inr (self_definition pipeline), h0)"
    "workflow_definition pipeline = self_definition pipeline"
    by blast+
  ultimately have "build_workflow_definition example_sdk example_env example_attributes
       example_inputs = (Inr built, h') \<and>
     map state_id (states built)
       = map (StepId_value example_env)
           [TrainPreprocessor, CreatePreprocessorModel, TransformInput, Train,
            CreatePipelineModel, ConfigureEndpoint, Deploy] \<and>
     map step_class (states built)
       = [TrainingStep, ModelStep, TransformStep, TrainingStep, ModelStep,
          EndpointConfigStep, EndpointStep] \<and>
     init example_sdk example_env ''pre'' ''est'' (VRef 0) ''bkt'' ''role'' None
       VNone VNone (Some ''pipe'') ''ts'' example_inputs = (Inr pipeline, h'') \<and>
     (\<exists>h0. build_workflow_definition example_sdk example_env (attributes pipeline)
             example_inputs = (Inr (self_definition pipeline), h0)) \<and>
     workflow_definition pipeline = self_definition pipeline"
    using b i by (intro conjI) assumption+
  then show ?thesis
    by - (rule exI [where x = built], rule exI [where x = h'],
        rule exI [where x = pipeline], rule exI [where x = h''], assumption)
qed

text \<open>
  C8: the definition that \<^verbatim>\<open>build_workflow_definition\<close> returns has seven states, none
  of them a \<^verbatim>\<open>Fail\<close> state and none with a \<^verbatim>\<open>Catch\<close> clause, so whatever error one of
  them raises, no clause of the definition handles it.
\<close>

theorem build_workflow_definition_no_failure_handling:
  assumes "build_workflow_definition sdk env self h = (Inr built, h')"
  shows "length (states built) = 7 \<and>
     list_all (\<lambda>s. step_class s \<noteq> Fail \<and> catches s = [] \<and> (\<forall>err. handler s err = None))
       (states built)"
proof -
  from build_workflow_definition_states [OF assms]
  obtain p1 p2 p3 p4 p5 p6 p7 where b: "built = Chain
     [\<lparr>step_class = TrainingStep, state_id = StepId_value env TrainPreprocessor,
        parameters = p1, catches = []\<rparr>,
      \<lparr>step_class = ModelStep, state_id = StepId_value env CreatePreprocessorModel,
        parameters = p2, catches = []\<rparr>,
      \<lparr>step_class = TransformStep, state_id = StepId_value env TransformInput,
        parameters = p3, catches = []\<rparr>,
      \<lparr>step_class = TrainingStep, state_id = StepId_value env Train,
        parameters = p4, catches = []\<rparr>,
      \<lparr>step_class = ModelStep, state_id = StepId_value env CreatePipelineModel,
        parameters = p5, catches = []\<rparr>,
      \<lparr>step_class = EndpointConfigStep, state_id = StepId_value env ConfigureEndpoint,
        parameters = p6, catches = []\<rparr>,
      \<lparr>step_class = EndpointStep, state_id = StepId_value env Deploy,
        parameters = p7, catches = []\<rparr>]"
    by blast
  show ?thesis by (simp add: b handler_def)
qed

theorem build_workflow_definition_no_failure_handling_witness:
  "\<exists>built h'.
     build_workflow_definition example_sdk example_env example_attributes example_inputs
       = (Inr built, h') \<and>
     length (states built) = 7 \<and>
     list_all (\<lambda>s. step_class s \<noteq> Fail \<and> catches s = [] \<and> (\<forall>err. handler s err = None))
       (states built)"
proof -
  from example_build obtain built h' where
    b: "build_workflow_definition example_sdk example_env example_attributes example_inputs
       = (Inr built, h')"
    by blast
  from build_workflow_definition_no_failure_handling [OF b] b
  have "build_workflow_definition example_sdk example_env example_attributes example_inputs
       = (Inr built, h') \<and>
     length (states built) = 7 \<and>
     list_all (\<lambda>s. step_class s \<noteq> Fail \<and> catches s = [] \<and> (\<forall>err. handler s err = None))
       (states built)"
    by (intro conjI) (assumption | erule conjunct1 | erule conjunct2)+
  then show ?thesis
    by - (rule exI [where x = built], rule exI [where x = h'], assumption)
qed

subsection \<open>The \<^verbatim>\<open>train\<close> channel\<close>

lemma getitem_str_key: "getitem (VStr s) (Key k) h = (Inl TypeError, h)"
  by (simp add: getitem_def)

lemma getitem_missing_key:
  "lookup h a = Some (ODict d) \<Longrightarrow> k \<notin> set (map fst d) \<Longrightarrow>
   getitem (VRef a) (Key k) h = (Inl KeyError, h)"
  by (simp add: getitem_def map_of_eq_None_iff [THEN iffD2])

lemma build_workflow_definition_raises:
  assumes "getitem (inputs self) (Key ''train'') h = (Inl e0, h)"
  shows "\<exists>e. fst (build_workflow_definition sdk env self h) = Inl e"
  using assms
  by (simp add: build_workflow_definition_def Let_def bind_apply call_apply new_step_def
      ret_apply split: sum.splits)

text \<open>
  C10: \<^verbatim>\<open>__init__\<close> calls \<^verbatim>\<open>build_workflow_definition\<close>, which evaluates
  \<^verbatim>\<open>self.inputs['train']\<close>; when \<open>inputs\<close> is a string, or a dictionary without the key
  \<^verbatim>\<open>'train'\<close>, construction raises an exception and returns no pipeline.
\<close>

theorem init_requires_train_channel:
  assumes "inputs' = VStr uri \<or>
           (\<exists>a d. inputs' = VRef a \<and> lookup h a = Some (ODict d) \<and> ''train'' \<notin> set (map fst d))"
  shows "\<exists>e. fst (init sdk env preprocessor' estimator' inputs' s3_bucket' role client
                    compression_type' content_type' pipeline_name' timestamp h) = Inl e"
proof -
  from assms have "\<exists>e0. getitem inputs' (Key ''train'') h = (Inl e0, h)"
    by (auto simp: getitem_str_key getitem_missing_key)
  then obtain e0 where g: "getitem inputs' (Key ''train'') h = (Inl e0, h)" ..
  have b: "\<exists>e. fst (build_workflow_definition sdk env self h) = Inl e"
    if "inputs self = inputs'" for self :: "'a attributes"
    using g that by (auto intro: build_workflow_definition_raises)
  let ?name = "case pipeline_name' of
                 None \<Rightarrow> ''inference-pipeline-'' @ timestamp
               | Some given \<Rightarrow> if given = [] then ''inference-pipeline-'' @ timestamp else given"
  let ?self = "\<lparr>preprocessor = preprocessor', estimator = estimator', inputs = inputs',
                compression_type = compression_type', content_type = content_type',
                pipeline_name = ?name\<rparr>"
  from b [of ?self] obtain e where
    e: "fst (build_workflow_definition sdk env ?self h) = Inl e" by auto
  then have "fst (init sdk env preprocessor' estimator' inputs' s3_bucket' role client
                    compression_type' content_type' pipeline_name' timestamp h) = Inl e"
    by (cases "build_workflow_definition sdk env ?self h")
      (simp add: init_def Let_def bind_apply)
  then show ?thesis ..
qed

theorem init_requires_train_channel_witness:
  "(VStr ''s3://bkt/train'' = VStr ''s3://bkt/train'' \<or>
    (\<exists>a d. VStr ''s3://bkt/train'' = VRef a \<and> lookup example_inputs a = Some (ODict d) \<and>
           ''train'' \<notin> set (map fst d))) \<and>
   (\<exists>e. fst (init example_sdk example_env ''pre'' ''est'' (VStr ''s3://bkt/train'') ''bkt''
               ''role'' None VNone VNone None ''ts'' example_inputs) = Inl e) \<and>
   (VRef 1 = VStr ''s3://bkt/train'' \<or>
    (\<exists>a d. VRef 1 = VRef a \<and> lookup example_inputs a = Some (ODict d) \<and>
           ''train'' \<notin> set (map fst d))) \<and>
   (\<exists>e. fst (init example_sdk example_env ''pre'' ''est'' (VRef 1) ''bkt''
               ''role'' None VNone VNone None ''ts'' example_inputs) = Inl e)"
proof -
  have s: "VStr ''s3://bkt/train'' = VStr ''s3://bkt/train'' \<or>
    (\<exists>a d. VStr ''s3://bkt/train'' = VRef a \<and> lookup example_inputs a = Some (ODict d) \<and>
           ''train'' \<notin> set (map fst d))"
    by simp
  have "lookup example_inputs 1 = Some (ODict [(''test'', VStr ''s3://bkt/test'')])"
    by (simp add: example_inputs_def lookup_def)
  then have d: "VRef 1 = VStr ''s3://bkt/train'' \<or>
    (\<exists>a d. VRef 1 = VRef a \<and> lookup example_inputs a = Some (ODict d) \<and>
           ''train'' \<notin> set (map fst d))"
    by simp
  from s d
    init_requires_train_channel [OF s, of example_sdk example_env "''pre''" "''est''"
      "''bkt''" "''role''" None VNone VNone None "''ts''"]
    init_requires_train_channel [OF d, of example_sdk example_env "''pre''" "''est''"
      "''bkt''" "''role''" None VNone VNone None "''ts''"]
  show ?thesis by (intro conjI) assumption+
qed

end
